theory Spec2Isabelle
  imports Complex_Main "HOL-Library.Char_ord" "HOL-Library.List_Lexorder" "HOL-Library.Multiset"
begin

section \<open>JSON values and Python built-ins\<close>

text \<open>
  The five stages exchange JSON documents. A decoded JSON value is modelled by \<open>jv\<close>.
  Python's \<open>int\<close> and \<open>float\<close> are both \<open>JNum\<close> over the reals (NaN and the
  infinities are not modelled), and the JSON booleans are read as the numbers 1 and 0,
  which is how every operation modelled here (\<open>float()\<close>, truth value, \<open>isinstance(_, (int, float))\<close>,
  \<open>==\<close>) treats them. A dict is an association list with distinct keys.
\<close>

datatype jv = JNull | JNum real | JStr string | JArr "jv list" | JObj "(string \<times> jv) list"

datatype error = TypeError | ValueError | AttributeError | KeyError | IndexError | ZeroDivisionError

text \<open>Python's truth value of a decoded JSON value, as used by \<open>or\<close> and \<open>not\<close>.\<close>

fun truthy :: "jv \<Rightarrow> bool" where
  "truthy JNull = False"
| "truthy (JNum x) = (x \<noteq> 0)"
| "truthy (JStr s) = (s \<noteq> [])"
| "truthy (JArr xs) = (xs \<noteq> [])"
| "truthy (JObj kvs) = (kvs \<noteq> [])"

text \<open>
  \<open>float(v)\<close>: a number is returned, a string is parsed by the library (the parameter
  \<open>float_of_str\<close>, \<open>None\<close> where \<open>float\<close> raises ValueError), anything else raises TypeError.
\<close>

fun py_float :: "(string \<Rightarrow> real option) \<Rightarrow> jv \<Rightarrow> error + real" where
  "py_float float_of_str (JNum x) = Inr x"
| "py_float float_of_str (JStr s) =
     (case float_of_str s of None \<Rightarrow> Inl ValueError | Some x \<Rightarrow> Inr x)"
| "py_float float_of_str _ = Inl TypeError"

text \<open>\<open>round(x, n)\<close> on the reals: to the nearest multiple of \<open>10^-n\<close>, ties to even.\<close>

definition round_half_even :: "real \<Rightarrow> int" where
  "round_half_even y =
     (let f = \<lfloor>y\<rfloor>; d = y - of_int f
      in if d < 1 / 2 then f else if d > 1 / 2 then f + 1 else if even f then f else f + 1)"

definition py_round :: "real \<Rightarrow> nat \<Rightarrow> real" where
  "py_round x n = of_int (round_half_even (x * 10 ^ n)) / 10 ^ n"

definition radians :: "real \<Rightarrow> real" where
  "radians d = d * pi / 180"

text \<open>\<open>math.atan2(y, x)\<close>.\<close>

definition atan2 :: "real \<Rightarrow> real \<Rightarrow> real" where
  "atan2 y x =
     (if x > 0 then arctan (y / x)
      else if x < 0 then (if y \<ge> 0 then arctan (y / x) + pi else arctan (y / x) - pi)
      else if y > 0 then pi / 2 else if y < 0 then - (pi / 2) else 0)"

section \<open>Trips stage (awsloc-trip.py)\<close>

text \<open>
  \<open>haversine_km\<close>. The code computes \<open>a\<close> in double precision, so its \<open>a\<close> is the exact
  value plus a rounding error; the error is the parameter \<open>rnd\<close> (a function of the four
  arguments, everywhere zero for exact arithmetic). It matters because \<open>math.sqrt\<close> raises
  ValueError on a negative argument: a rounded \<open>a\<close> just above 1 makes \<open>math.sqrt(1-a)\<close>
  raise, and nothing in \<open>haversine_km\<close> catches it.
\<close>

type_synonym rounding = "real \<Rightarrow> real \<Rightarrow> real \<Rightarrow> real \<Rightarrow> real"

definition haversine_km :: "rounding \<Rightarrow> real \<Rightarrow> real \<Rightarrow> real \<Rightarrow> real \<Rightarrow> error + real" where
  "haversine_km rnd lat1 lon1 lat2 lon2 =
     (let R = 6371.0088;
          dlat = radians (lat2 - lat1);
          dlon = radians (lon2 - lon1);
          a = (sin (dlat / 2))\<^sup>2 + cos (radians lat1) * cos (radians lat2) * (sin (dlon / 2))\<^sup>2
                + rnd lat1 lon1 lat2 lon2
      in if a < 0 \<or> 1 - a < 0 then Inl ValueError
         else Inr (R * (2 * atan2 (sqrt a) (sqrt (1 - a)))))"

text \<open>
  An enriched stay as the Trips stage reads it. \<open>center = None\<close> stands for a stay whose
  \<open>center\<close> key is absent, null or an empty dict (\<open>stay.get("center") or {}\<close> makes the
  three alike); inside a center, \<open>JNull\<close> stands for an absent or null coordinate.
  \<open>start\<close>, \<open>end\<close> and \<open>label\<close> are strings or absent.
\<close>

record center =
  c_lat :: jv
  c_lon :: jv

record stay =
  s_center :: "center option"
  s_start :: "string option"
  s_end :: "string option"
  s_label :: "string option"

text \<open>\<open>x or y\<close> on optional strings: the first operand when it is a non-empty string.\<close>

definition or_str :: "string option \<Rightarrow> string option \<Rightarrow> string option" where
  "or_str x y = (case x of Some (c # cs) \<Rightarrow> x | _ \<Rightarrow> y)"

definition safe_float :: "(string \<Rightarrow> real option) \<Rightarrow> jv \<Rightarrow> real option" where
  "safe_float float_of_str v =
     (case py_float float_of_str v of Inl e \<Rightarrow> None | Inr x \<Rightarrow> Some x)"

definition stay_center_ok :: "stay \<Rightarrow> bool" where
  "stay_center_ok s =
     (let lat = (case s_center s of None \<Rightarrow> JNull | Some c \<Rightarrow> c_lat c);
          lon = (case s_center s of None \<Rightarrow> JNull | Some c \<Rightarrow> c_lon c)
      in if lat = JNull \<or> lon = JNull then False else True)"

text \<open>
  The answer of the route calculator to one \<open>calculate_route\<close> call: it raises a client
  error, raises something else, or returns a response. Of the response the code reads
  \<open>Summary.Distance\<close> and the legs, and of the first leg \<open>Geometry.LineString\<close>
  (\<open>JNull\<close> when \<open>Geometry\<close> or \<open>LineString\<close> is absent).
\<close>

record leg =
  LineString :: jv

record route_resp =
  summary_distance :: "real option"
  Legs :: "leg list"

datatype route_outcome = ClientError | GenericError | Response route_resp

type_synonym position = "real option \<times> real option"

text \<open>The loop over the points of the line: a point is kept when it is a list of at
  least two entries that both convert to float.\<close>

fun route_points :: "(string \<Rightarrow> real option) \<Rightarrow> jv list \<Rightarrow> position list" where
  "route_points fos [] = []"
| "route_points fos (JArr (x # y # zs) # pts) =
     (case (py_float fos x, py_float fos y) of
        (Inr a, Inr b) \<Rightarrow> (Some a, Some b) # route_points fos pts
      | _ \<Rightarrow> route_points fos pts)"
| "route_points fos (pt # pts) = route_points fos pts"

text \<open>
  \<open>dist_km or haversine_km(...)\<close>: the haversine distance is only computed (and can only
  raise) when \<open>dist_km\<close> is \<open>None\<close> or zero.
\<close>

definition dist_or :: "real option \<Rightarrow> error + real \<Rightarrow> error + real" where
  "dist_or dist_km h = (case dist_km of None \<Rightarrow> h | Some d \<Rightarrow> if d \<noteq> 0 then Inr d else h)"

text \<open>
  \<open>build_route_coords\<close>. \<open>calc\<close> is the setting \<open>ROUTE_CALCULATOR\<close> (\<open>None\<close> when
  unset or empty), \<open>route\<close> the calculator's answer for a departure and a destination.
  Without a calculator the haversine distance is computed outside the \<open>try\<close>. Inside the
  \<open>try\<close> (\<open>route_try\<close>) an exception, of the call or of \<open>haversine_km\<close>, reaches one of
  the two handlers, and both handlers (\<open>route_except\<close>) compute the haversine distance
  again, outside any \<open>try\<close>.
\<close>

type_synonym route_result = "position list \<times> real option \<times> bool"

definition route_except :: "position list \<Rightarrow> error + real \<Rightarrow> error + route_result" where
  "route_except fallback hav =
     (case hav of Inl e \<Rightarrow> Inl e | Inr h \<Rightarrow> Inr (fallback, Some h, True))"

definition route_return ::
  "position list \<Rightarrow> bool \<Rightarrow> error + real \<Rightarrow> error + route_result" where
  "route_return coords fb dist_km =
     (case dist_km of Inl e \<Rightarrow> Inl e | Inr d \<Rightarrow> Inr (coords, Some d, fb))"

definition route_try ::
  "(string \<Rightarrow> real option) \<Rightarrow> position list \<Rightarrow> error + real \<Rightarrow> route_resp \<Rightarrow>
   error + route_result" where
  "route_try fos fallback hav resp =
     (let dist_km = summary_distance resp
      in case Legs resp of
           [] \<Rightarrow> route_return fallback True (dist_or dist_km hav)
         | l # ls \<Rightarrow>
            (case LineString l of
               JArr (p # ps) \<Rightarrow>
                 (let coords = route_points fos (p # ps)
                  in if coords = [] then route_return fallback True (dist_or dist_km hav)
                     else route_return coords False (dist_or dist_km hav))
             | _ \<Rightarrow> route_return fallback True (dist_or dist_km hav)))"

definition build_route_coords ::
  "(string \<Rightarrow> real option) \<Rightarrow> rounding \<Rightarrow> string option \<Rightarrow>
   (real \<times> real \<Rightarrow> real \<times> real \<Rightarrow> route_outcome) \<Rightarrow>
   real option \<Rightarrow> real option \<Rightarrow> real option \<Rightarrow> real option \<Rightarrow> error + route_result" where
  "build_route_coords fos rnd calc route src_lon src_lat dst_lon dst_lat =
     (let fallback = [(src_lon, src_lat), (dst_lon, dst_lat)]
      in case (src_lon, src_lat, dst_lon, dst_lat) of
           (Some slon, Some slat, Some dlon, Some dlat) \<Rightarrow>
             (let hav = haversine_km rnd slat slon dlat dlon
              in case calc of
                   None \<Rightarrow>
                     (case hav of Inl e \<Rightarrow> Inl e | Inr h \<Rightarrow> Inr (fallback, Some h, True))
                 | Some name \<Rightarrow>
                    (case route (slon, slat) (dlon, dlat) of
                       ClientError \<Rightarrow> route_except fallback hav
                     | GenericError \<Rightarrow> route_except fallback hav
                     | Response resp \<Rightarrow>
                        (case route_try fos fallback hav resp of
                           Inl e \<Rightarrow> route_except fallback hav
                         | Inr r \<Rightarrow> Inr r)))
         | _ \<Rightarrow> Inr (fallback, None, True))"

record endpoint =
  e_time :: "string option"
  e_lat :: "real option"
  e_lon :: "real option"
  e_label :: "string option"

record trip =
  t_from :: endpoint
  t_to :: endpoint
  distance_km :: "real option"
  fallback :: bool

text \<open>The body of the loop for a pair with both centers: the four casts, the route, the
  trip record. An exception of \<open>build_route_coords\<close> is not caught here.\<close>

definition make_trip ::
  "(string \<Rightarrow> real option) \<Rightarrow> rounding \<Rightarrow> string option \<Rightarrow>
   (real \<times> real \<Rightarrow> real \<times> real \<Rightarrow> route_outcome) \<Rightarrow>
   stay \<Rightarrow> stay \<Rightarrow> error + trip \<times> position list" where
  "make_trip fos rnd calc route a b =
     (let a_lat = (case s_center a of None \<Rightarrow> JNull | Some c \<Rightarrow> c_lat c);
          a_lon = (case s_center a of None \<Rightarrow> JNull | Some c \<Rightarrow> c_lon c);
          b_lat = (case s_center b of None \<Rightarrow> JNull | Some c \<Rightarrow> c_lat c);
          b_lon = (case s_center b of None \<Rightarrow> JNull | Some c \<Rightarrow> c_lon c);
          src_lat = safe_float fos a_lat;
          src_lon = safe_float fos a_lon;
          dst_lat = safe_float fos b_lat;
          dst_lon = safe_float fos b_lon
      in case build_route_coords fos rnd calc route src_lon src_lat dst_lon dst_lat of
           Inl e \<Rightarrow> Inl e
         | Inr (coords, dist_km, fb) \<Rightarrow>
         Inr (\<lparr>t_from = \<lparr>e_time = or_str (s_end a) (s_start a), e_lat = src_lat, e_lon = src_lon,
                      e_label = s_label a\<rparr>,
           t_to = \<lparr>e_time = or_str (s_start b) (s_end b), e_lat = dst_lat, e_lon = dst_lon,
                    e_label = s_label b\<rparr>,
           distance_km = map_option (\<lambda>d. py_round d 3) dist_km,
           fallback = fb\<rparr>, coords))"

text \<open>
  The loop \<open>for i in range(len(stays_sorted) - 1)\<close> with its three accumulators:
  the trips, \<open>skipped_missing_center\<close> and \<open>created\<close>. The index \<open>i\<close> only reaches
  the log. An exception in the body ends the loop and the function.
\<close>

type_synonym trips_result = "(trip \<times> position list) list \<times> nat \<times> nat"

fun pair_loop ::
  "(string \<Rightarrow> real option) \<Rightarrow> rounding \<Rightarrow> string option \<Rightarrow>
   (real \<times> real \<Rightarrow> real \<times> real \<Rightarrow> route_outcome) \<Rightarrow>
   stay list \<Rightarrow> (trip \<times> position list) list \<Rightarrow> nat \<Rightarrow> nat \<Rightarrow> error + trips_result" where
  "pair_loop fos rnd calc route (a # b # rest) trips skipped created =
     (if \<not> stay_center_ok a \<or> \<not> stay_center_ok b
      then pair_loop fos rnd calc route (b # rest) trips (skipped + 1) created
      else case make_trip fos rnd calc route a b of
             Inl e \<Rightarrow> Inl e
           | Inr t \<Rightarrow> pair_loop fos rnd calc route (b # rest) (trips @ [t]) skipped (created + 1))"
| "pair_loop fos rnd calc route rest trips skipped created = Inr (trips, skipped, created)"

text \<open>The sort key \<open>s.get("end") or s.get("start") or ""\<close>.\<close>

definition stay_key :: "stay \<Rightarrow> string" where
  "stay_key s = (case or_str (or_str (s_end s) (s_start s)) (Some []) of None \<Rightarrow> [] | Some k \<Rightarrow> k)"

text \<open>
  \<open>make_trips_from_stays\<close>, returning with the trips the two counters that the function
  logs in \<open>trips_build_summary\<close> (both still zero when it returns early).
\<close>

definition make_trips_from_stays ::
  "(string \<Rightarrow> real option) \<Rightarrow> rounding \<Rightarrow> string option \<Rightarrow>
   (real \<times> real \<Rightarrow> real \<times> real \<Rightarrow> route_outcome) \<Rightarrow> stay list \<Rightarrow> error + trips_result" where
  "make_trips_from_stays fos rnd calc route stays =
     (if length stays < 2 then Inr ([], 0, 0)
      else pair_loop fos rnd calc route (sort_key stay_key stays) [] 0 0)"

text \<open>
  The effect of one pair of the loop on the three accumulators, and the results of two
  runs put together (the first exception wins); both are used to state how the loop
  decomposes.
\<close>

definition pair_step ::
  "(string \<Rightarrow> real option) \<Rightarrow> rounding \<Rightarrow> string option \<Rightarrow>
   (real \<times> real \<Rightarrow> real \<times> real \<Rightarrow> route_outcome) \<Rightarrow> stay \<Rightarrow> stay \<Rightarrow> error + trips_result" where
  "pair_step fos rnd calc route a b =
     (if \<not> stay_center_ok a \<or> \<not> stay_center_ok b then Inr ([], 1, 0)
      else case make_trip fos rnd calc route a b of
             Inl e \<Rightarrow> Inl e
           | Inr t \<Rightarrow> Inr ([t], 0, 1))"

definition plus3 :: "'a list \<times> nat \<times> nat \<Rightarrow> 'a list \<times> nat \<times> nat \<Rightarrow> 'a list \<times> nat \<times> nat" where
  "plus3 x y = (fst x @ fst y, fst (snd x) + fst (snd y), snd (snd x) + snd (snd y))"

definition then3 :: "error + trips_result \<Rightarrow> error + trips_result \<Rightarrow> error + trips_result" where
  "then3 x y =
     (case x of Inl e \<Rightarrow> Inl e
      | Inr u \<Rightarrow> (case y of Inl e \<Rightarrow> Inl e | Inr v \<Rightarrow> Inr (plus3 u v)))"

text \<open>The consecutive pairs of a list, and the pairs that the loop skips.\<close>

definition adjacent_pairs :: "'a list \<Rightarrow> ('a \<times> 'a) list" where
  "adjacent_pairs xs = zip xs (tl xs)"

definition missing_center :: "stay \<times> stay \<Rightarrow> bool" where
  "missing_center p = (\<not> stay_center_ok (fst p) \<or> \<not> stay_center_ok (snd p))"




text \<open>
  Two stays with centers at (lat -12, lon -180) and (lat 12, lon 0), antipodal on the
  sphere: the exact \<open>a\<close> of \<open>haversine_km\<close> is 1 there, and the double that CPython
  computes is 1.0000000000000002, one unit in the last place above it. \<open>rnd_antipodal\<close>
  is that rounding error, at this pair, and leaves every other pair exact.
\<close>

definition stay_p :: stay where
  "stay_p = \<lparr>s_center = Some \<lparr>c_lat = JNum (- 12), c_lon = JNum (- 180)\<rparr>,
              s_start = Some ''2024-05-01T09:00:00Z'', s_end = Some ''2024-05-01T09:10:00Z'',
              s_label = Some ''P''\<rparr>"

definition stay_q :: stay where
  "stay_q = \<lparr>s_center = Some \<lparr>c_lat = JNum 12, c_lon = JNum 0\<rparr>,
              s_start = Some ''2024-05-02T11:00:00Z'', s_end = Some ''2024-05-02T11:30:00Z'',
              s_label = Some ''Q''\<rparr>"

definition rnd_antipodal :: rounding where
  "rnd_antipodal lat1 lon1 lat2 lon2 =
     (if lat1 = - 12 \<and> lon1 = - 180 \<and> lat2 = 12 \<and> lon2 = 0 then 1 / 2 ^ 52 else 0)"

definition exact :: rounding where
  "exact lat1 lon1 lat2 lon2 = 0"

section \<open>Segment stage (awsloc-stay.py)\<close>

text \<open>
  Points as \<open>read_points_jsonl\<close> returns them, and the segments (stays or visits)
  that \<open>detect_segments\<close> emits. Coordinates are reals. \<open>iso2dt\<close>, the library's
  ISO-8601 parser, is a parameter: the instant in seconds, \<open>None\<close> where it raises.
\<close>

definition haversine_m :: "real \<Rightarrow> real \<Rightarrow> real \<Rightarrow> real \<Rightarrow> real" where
  "haversine_m lat1 lon1 lat2 lon2 =
     (let R = 6371000;
          dlat = radians (lat2 - lat1);
          dlon = radians (lon2 - lon1);
          a = (sin (dlat / 2))\<^sup>2 + cos (radians lat1) * cos (radians lat2) * (sin (dlon / 2))\<^sup>2
      in 2 * R * arcsin (sqrt a))"

record gps_point =
  p_lat :: real
  p_lon :: real
  p_ts :: string

record segment =
  seg_center :: "real \<times> real"
  seg_start :: string
  seg_end :: string

text \<open>The Python slice \<open>xs[a:b]\<close> for indices that are not negative.\<close>

definition slice :: "'a list \<Rightarrow> nat \<Rightarrow> nat \<Rightarrow> 'a list" where
  "slice xs a b = take (b - a) (drop a xs)"

definition centroid :: "gps_point list \<Rightarrow> error + real \<times> real" where
  "centroid ws =
     (if ws = [] then Inl ZeroDivisionError
      else Inr (sum_list (map p_lat ws) / real (length ws),
                sum_list (map p_lon ws) / real (length ws)))"

text \<open>The largest distance from the centroid to a point of the window.\<close>

definition max_radius :: "real \<Rightarrow> real \<Rightarrow> gps_point list \<Rightarrow> real" where
  "max_radius latc lonc window =
     foldl (\<lambda>max_r p. let d = haversine_m latc lonc (p_lat p) (p_lon p)
                       in if d > max_r then d else max_r) 0 window"

text \<open>\<open>(iso2dt(window[-1]["ts"]) - iso2dt(window[0]["ts"])).total_seconds()\<close>.\<close>

definition duration :: "(string \<Rightarrow> real option) \<Rightarrow> gps_point list \<Rightarrow> error + real" where
  "duration iso2dt window =
     (if window = [] then Inl IndexError
      else case iso2dt (p_ts (last window)) of
             None \<Rightarrow> Inl ValueError
           | Some e \<Rightarrow> (case iso2dt (p_ts (hd window)) of
                          None \<Rightarrow> Inl ValueError
                        | Some s \<Rightarrow> Inr (e - s)))"

text \<open>
  One pass through the body of the \<open>while\<close> loop at index \<open>i\<close>; the state is
  \<open>start_idx\<close> and the segments emitted so far.
\<close>

definition seg_step ::
  "(string \<Rightarrow> real option) \<Rightarrow> gps_point list \<Rightarrow> int \<Rightarrow> int \<Rightarrow> nat \<Rightarrow> nat \<times> segment list \<Rightarrow>
   error + nat \<times> segment list" where
  "seg_step iso2dt points radius_m min_dur_sec i st =
     (let start_idx = fst st; segs = snd st; window = slice points start_idx i
      in case centroid window of
           Inl e \<Rightarrow> Inl e
         | Inr (latc, lonc) \<Rightarrow>
            (let max_r = max_radius latc lonc window
             in case duration iso2dt window of
                  Inl e \<Rightarrow> Inl e
                | Inr dur \<Rightarrow>
                   if max_r > real_of_int radius_m then
                     (if dur \<ge> real_of_int min_dur_sec \<and> length window > 1 then
                        (let w2 = slice points start_idx (i - 1)
                         in case centroid w2 of
                              Inl e \<Rightarrow> Inl e
                            | Inr c2 \<Rightarrow>
                               if w2 = [] then Inl IndexError
                               else Inr (i - 1, segs @ [\<lparr>seg_center = c2, seg_start = p_ts (hd w2),
                                                          seg_end = p_ts (last w2)\<rparr>]))
                      else Inr (i - 1, segs))
                   else Inr (start_idx, segs)))"

function seg_loop ::
  "(string \<Rightarrow> real option) \<Rightarrow> gps_point list \<Rightarrow> int \<Rightarrow> int \<Rightarrow> nat \<Rightarrow> nat \<times> segment list \<Rightarrow>
   error + nat \<times> segment list" where
  "seg_loop iso2dt points radius_m min_dur_sec i st =
     (if i \<le> length points then
        (case seg_step iso2dt points radius_m min_dur_sec i st of
           Inl e \<Rightarrow> Inl e
         | Inr st' \<Rightarrow> seg_loop iso2dt points radius_m min_dur_sec (i + 1) st')
      else Inr st)"
  by pat_completeness auto
termination
  by (relation "measure (\<lambda>(iso2dt, points, radius_m, min_dur_sec, i, st). length points + 1 - i)") auto

declare seg_loop.simps [simp del]

definition detect_segments ::
  "(string \<Rightarrow> real option) \<Rightarrow> gps_point list \<Rightarrow> int \<Rightarrow> int \<Rightarrow> error + segment list" where
  "detect_segments iso2dt points radius_m min_dur_sec =
     (let n = length points
      in if n = 0 then Inr []
         else case seg_loop iso2dt points radius_m min_dur_sec 1 (0, []) of
                Inl e \<Rightarrow> Inl e
              | Inr (start_idx, segs) \<Rightarrow>
                 if start_idx < n then
                   (let window = slice points start_idx n
                    in case centroid window of
                         Inl e \<Rightarrow> Inl e
                       | Inr c \<Rightarrow>
                          (case duration iso2dt window of
                             Inl e \<Rightarrow> Inl e
                           | Inr dur \<Rightarrow>
                              if dur \<ge> real_of_int min_dur_sec
                              then Inr (segs @ [\<lparr>seg_center = c, seg_start = p_ts (hd window),
                                                  seg_end = p_ts (last window)\<rparr>])
                              else Inr segs))
                 else Inr segs)"

definition STAY_RADIUS_M :: int where "STAY_RADIUS_M = 200"
definition STAY_MIN_SEC :: int where "STAY_MIN_SEC = 300"

text \<open>The parser's values on the four timestamps of the examples.\<close>

definition iso2dt_may1 :: "string \<Rightarrow> real option" where
  "iso2dt_may1 s =
     (if s = ''2024-05-01T09:00:00Z'' then Some 1714554000
      else if s = ''2024-05-01T09:01:00Z'' then Some 1714554060
      else if s = ''2024-05-01T09:05:00Z'' then Some 1714554300
      else if s = ''2024-05-01T09:10:00Z'' then Some 1714554600
      else None)"

text \<open>
  Two time-sorted point sets on the equator: two points 111 km and five minutes apart,
  and a minute at one place followed, nine minutes later, by a point 333 km away.
\<close>

definition one_point_stay_input :: "gps_point list" where
  "one_point_stay_input =
     [\<lparr>p_lat = 0, p_lon = 0, p_ts = ''2024-05-01T09:00:00Z''\<rparr>,
      \<lparr>p_lat = 0, p_lon = 1, p_ts = ''2024-05-01T09:05:00Z''\<rparr>]"

definition short_stay_input :: "gps_point list" where
  "short_stay_input =
     [\<lparr>p_lat = 0, p_lon = 0, p_ts = ''2024-05-01T09:00:00Z''\<rparr>,
      \<lparr>p_lat = 0, p_lon = 0, p_ts = ''2024-05-01T09:01:00Z''\<rparr>,
      \<lparr>p_lat = 0, p_lon = 3, p_ts = ''2024-05-01T09:10:00Z''\<rparr>]"

section \<open>Ingest stage (awsloc-ingest.py)\<close>

type_synonym dict = "(string \<times> jv) list"

text \<open>\<open>d.get(k, dflt)\<close>; a key stored with the value null is present.\<close>

definition dict_get :: "dict \<Rightarrow> string \<Rightarrow> jv \<Rightarrow> jv" where
  "dict_get d k dflt = (case map_of d k of None \<Rightarrow> dflt | Some v \<Rightarrow> v)"

text \<open>\<open>int(x)\<close> on a float: truncation towards zero.\<close>

definition py_int :: "real \<Rightarrow> int" where
  "py_int x = (if x \<ge> 0 then \<lfloor>x\<rfloor> else \<lceil>x\<rceil>)"

text \<open>\<open>str(n)\<close> on integers: the decimal digits, with a sign for negative numbers.\<close>

function dec_of_nat :: "nat \<Rightarrow> string" where
  "dec_of_nat n =
     (if n < 10 then [''0123456789'' ! n] else dec_of_nat (n div 10) @ [''0123456789'' ! (n mod 10)])"
  by pat_completeness auto
termination
  by (relation "measure (\<lambda>n. n)") auto

declare dec_of_nat.simps [simp del]

definition dec_of_int :: "int \<Rightarrow> string" where
  "dec_of_int i = (if i < 0 then CHR ''-'' # dec_of_nat (nat (- i)) else dec_of_nat (nat i))"

text \<open>
  What the handler takes from outside: the clock (\<open>time.time()\<close>, in seconds), the
  library's \<open>datetime.fromisoformat(s).timestamp()\<close> and \<open>float(s)\<close> on strings
  (\<open>None\<close> where they raise), \<open>str()\<close> on a value that is not a string, the request
  id of the invocation, and the reverse geocoder (\<open>PLACE_INDEX\<close> and the label it
  finds, \<open>None\<close> when it finds none or fails). For the echo to the tracker:
  \<open>TRACKER\<close> is the setting \<open>TRACKER_NAME\<close> (\<open>None\<close> when unset) and
  \<open>utcfromtimestamp_str x\<close> is
  \<open>datetime.utcfromtimestamp(x).strftime("%Y-%m-%dT%H:%M:%SZ")\<close>, which raises for a time
  outside the years 1 to 9999.
\<close>

record ingest_env =
  clock :: real
  fromisoformat_ts :: "string \<Rightarrow> real option"
  float_of_str :: "string \<Rightarrow> real option"
  str_of :: "jv \<Rightarrow> string"
  aws_request_id :: string
  PLACE_INDEX :: "string option"
  geocode_label :: "real \<Rightarrow> real \<Rightarrow> string option"
  TRACKER :: "string option"
  utcfromtimestamp_str :: "real \<Rightarrow> error + string"

text \<open>\<open>_to_ms\<close>.\<close>

definition to_ms :: "ingest_env \<Rightarrow> jv \<Rightarrow> int" where
  "to_ms env ts =
     (case ts of
        JNull \<Rightarrow> py_int (clock env * 1000)
      | JNum x \<Rightarrow> py_int (if x > 10 ^ 12 then x else x * 1000)
      | JStr s \<Rightarrow>
          (let s' = (if s \<noteq> [] \<and> last s = CHR ''Z'' then butlast s @ ''+00:00'' else s)
           in case fromisoformat_ts env s' of
                Some t \<Rightarrow> py_int (t * 1000)
              | None \<Rightarrow> py_int (clock env * 1000))
      | _ \<Rightarrow> py_int (clock env * 1000))"

record loc_record =
  r_lat :: real
  r_lon :: real
  r_ts_ms :: int

text \<open>
  The three conversions that make a record; \<open>batch_record\<close> is the body of the
  \<open>try\<close> for one entry of \<open>locations\<close> (an entry that is not a dict has no
  \<open>get\<close>), \<open>batch_records\<close> the loop that skips the entries that raised, and
  \<open>single_record\<close> the \<open>try\<close> of the single form, where a missing coordinate is a
  KeyError.
\<close>

definition coords_record :: "ingest_env \<Rightarrow> jv \<Rightarrow> jv \<Rightarrow> jv \<Rightarrow> error + loc_record" where
  "coords_record env lat_v lon_v ts_v =
     (case py_float (float_of_str env) lat_v of
        Inl e \<Rightarrow> Inl e
      | Inr lat \<Rightarrow>
         (case py_float (float_of_str env) lon_v of
            Inl e \<Rightarrow> Inl e
          | Inr lon \<Rightarrow> Inr \<lparr>r_lat = lat, r_lon = lon, r_ts_ms = to_ms env ts_v\<rparr>))"

definition batch_record :: "ingest_env \<Rightarrow> jv \<Rightarrow> error + loc_record" where
  "batch_record env p =
     (case p of
        JObj d \<Rightarrow> coords_record env (dict_get d ''latitude'' (dict_get d ''lat'' JNull))
                    (dict_get d ''longitude'' (dict_get d ''lon'' JNull))
                    (dict_get d ''timestamp'' JNull)
      | _ \<Rightarrow> Inl AttributeError)"

fun batch_records :: "ingest_env \<Rightarrow> jv list \<Rightarrow> loc_record list" where
  "batch_records env [] = []"
| "batch_records env (p # ps) =
     (case batch_record env p of
        Inl e \<Rightarrow> batch_records env ps
      | Inr r \<Rightarrow> r # batch_records env ps)"

definition single_record :: "ingest_env \<Rightarrow> dict \<Rightarrow> error + loc_record" where
  "single_record env body =
     (case map_of body ''latitude'' of
        None \<Rightarrow> Inl KeyError
      | Some lat_v \<Rightarrow>
         (case py_float (float_of_str env) lat_v of
            Inl e \<Rightarrow> Inl e
          | Inr lat \<Rightarrow>
             (case map_of body ''longitude'' of
                None \<Rightarrow> Inl KeyError
              | Some lon_v \<Rightarrow>
                 (case py_float (float_of_str env) lon_v of
                    Inl e \<Rightarrow> Inl e
                  | Inr lon \<Rightarrow>
                     Inr \<lparr>r_lat = lat, r_lon = lon,
                          r_ts_ms = to_ms env (dict_get body ''timestamp'' JNull)\<rparr>))))"

text \<open>
  The echo to the location tracker. \<open>_iso_utc_from_ms\<close> formats the sample time of each
  record while the list of updates is built, outside every \<open>try\<close>: an exception there
  ends the handler. The calls that send the updates, ten at a time, are inside a \<open>try\<close>
  whose handler only prints, so they change nothing of what the handler returns and
  only the list they would send is modelled.
\<close>

definition iso_utc_from_ms :: "ingest_env \<Rightarrow> int \<Rightarrow> error + string" where
  "iso_utc_from_ms env ms = utcfromtimestamp_str env (of_int ms / 1000)"

record tracker_update =
  u_DeviceId :: string
  u_Position :: "real \<times> real"
  u_SampleTime :: string

fun tracker_updates :: "ingest_env \<Rightarrow> string \<Rightarrow> loc_record list \<Rightarrow> error + tracker_update list" where
  "tracker_updates env device_id [] = Inr []"
| "tracker_updates env device_id (r # rs) =
     (case iso_utc_from_ms env (r_ts_ms r) of
        Inl e \<Rightarrow> Inl e
      | Inr t \<Rightarrow>
         (case tracker_updates env device_id rs of
            Inl e \<Rightarrow> Inl e
          | Inr us \<Rightarrow>
              Inr (\<lparr>u_DeviceId = device_id, u_Position = (r_lon r, r_lat r), u_SampleTime = t\<rparr>
                   # us)))"

definition tracker_block :: "ingest_env \<Rightarrow> string \<Rightarrow> loc_record list \<Rightarrow> error + tracker_update list" where
  "tracker_block env device_id records =
     (case TRACKER env of
        None \<Rightarrow> Inr []
      | Some name \<Rightarrow> if name = [] then Inr [] else tracker_updates env device_id records)"

text \<open>
  The raw object written for a record, and the loop that writes them. \<open>s3_put key obj\<close>
  tells whether \<open>put_object\<close> returned (true) or raised (false); a key is added to
  \<open>saved_keys\<close> only after the put returned.
\<close>

record raw_object =
  o_deviceId :: string
  o_timestamp :: int
  o_latitude :: real
  o_longitude :: real
  o_address :: "string option"

definition reverse_geocode :: "ingest_env \<Rightarrow> real \<Rightarrow> real \<Rightarrow> string option" where
  "reverse_geocode env lon lat =
     (case PLACE_INDEX env of None \<Rightarrow> None | Some idx \<Rightarrow> geocode_label env lon lat)"

fun put_loop ::
  "ingest_env \<Rightarrow> (string \<Rightarrow> raw_object \<Rightarrow> bool) \<Rightarrow> string \<Rightarrow> string \<Rightarrow> nat \<Rightarrow> loc_record list \<Rightarrow>
   string list \<Rightarrow> string list" where
  "put_loop env s3_put device_id rid idx [] saved_keys = saved_keys"
| "put_loop env s3_put device_id rid idx (r # rs) saved_keys =
     (let label = reverse_geocode env (r_lon r) (r_lat r);
          enriched = \<lparr>o_deviceId = device_id, o_timestamp = r_ts_ms r, o_latitude = r_lat r,
                      o_longitude = r_lon r,
                      o_address = (case label of Some (c # cs) \<Rightarrow> label | _ \<Rightarrow> None)\<rparr>;
          key = ''raw/'' @ device_id @ ''/'' @ dec_of_int (r_ts_ms r) @ ''-'' @ rid @ ''-''
                  @ dec_of_nat idx @ ''.json''
      in if s3_put key enriched
         then put_loop env s3_put device_id rid (idx + 1) rs (saved_keys @ [key])
         else put_loop env s3_put device_id rid (idx + 1) rs saved_keys)"

text \<open>
  The response: the status code and the fields of the JSON body (the headers are
  constant). \<open>error\<close> is a fixed text or \<open>str(e)\<close> of the exception caught.
\<close>

datatype err_field = ErrText string | ErrExc error

record resp_body =
  b_ok :: bool
  b_error :: "err_field option"
  b_saved :: "nat option"
  b_keys :: "string list option"

record response =
  statusCode :: nat
  body_json :: resp_body

definition http_resp :: "nat \<Rightarrow> resp_body \<Rightarrow> response" where
  "http_resp code b = \<lparr>statusCode = code, body_json = b\<rparr>"

text \<open>
  The event: the two places where the HTTP method may stand, and the body after
  \<open>json.loads(event.get("body") or "{}")\<close>, which raised or returned a value.
  \<open>ingest_handler\<close> is \<open>lambda_handler\<close> of awsloc-ingest.py; a body that is not a
  dict makes \<open>body.get\<close> raise outside every \<open>try\<close>, and so does a sample time that
  the tracker block cannot format: the handler then raises and returns no response.
\<close>

datatype request_body = InvalidJson | Decoded jv

record event =
  httpMethod :: "string option"
  http_method :: "string option"
  ev_body :: request_body

definition ingest_handler ::
  "ingest_env \<Rightarrow> (string \<Rightarrow> raw_object \<Rightarrow> bool) \<Rightarrow> event \<Rightarrow> error + response" where
  "ingest_handler env s3_put ev =
     (if httpMethod ev = Some ''OPTIONS'' \<or> http_method ev = Some ''OPTIONS''
      then Inr (http_resp 200 \<lparr>b_ok = True, b_error = None, b_saved = None, b_keys = None\<rparr>)
      else case ev_body ev of
        InvalidJson \<Rightarrow>
          Inr (http_resp 400 \<lparr>b_ok = False, b_error = Some (ErrText ''invalid_json''), b_saved = None,
                         b_keys = None\<rparr>)
      | Decoded (JObj b) \<Rightarrow>
          (let dev = dict_get b ''deviceId'' JNull;
               device_id = (if truthy dev then (case dev of JStr s \<Rightarrow> s | _ \<Rightarrow> str_of env dev)
                            else ''web-unknown'');
               recs = (case dict_get b ''locations'' JNull of
                         JArr locs \<Rightarrow> Inr (batch_records env locs)
                       | _ \<Rightarrow> (case single_record env b of
                                 Inl e \<Rightarrow> Inl e
                               | Inr r \<Rightarrow> Inr [r]))
           in case recs of
                Inl e \<Rightarrow>
                  Inr (http_resp 400 \<lparr>b_ok = False, b_error = Some (ErrExc e), b_saved = None,
                                 b_keys = None\<rparr>)
              | Inr records \<Rightarrow>
                  if records = []
                  then Inr (http_resp 400 \<lparr>b_ok = False, b_error = Some (ErrText ''no_valid_locations''),
                                      b_saved = None, b_keys = None\<rparr>)
                  else
                    (let rid = (if take 8 (aws_request_id env) \<noteq> [] then take 8 (aws_request_id env)
                                else dec_of_int (py_int (clock env) mod 100000))
                     in case tracker_block env device_id records of
                          Inl e \<Rightarrow> Inl e
                        | Inr updates \<Rightarrow>
                           (let saved_keys = put_loop env s3_put device_id rid 0 records []
                            in Inr (http_resp 200 \<lparr>b_ok = True, b_error = None,
                                               b_saved = Some (length saved_keys),
                                               b_keys = Some saved_keys\<rparr>))))
      | Decoded v \<Rightarrow> Inl AttributeError)"

text \<open>An environment and a batch of one location, for the examples.\<close>

definition env0 :: ingest_env where
  "env0 = \<lparr>clock = 1714557600.5, fromisoformat_ts = (\<lambda>s. if s = ''2024-05-01T10:00:00+00:00'' then Some 1714557600 else None),
            float_of_str = (\<lambda>s. None), str_of = (\<lambda>v. ''None''), aws_request_id = ''8f14e45f-ceea-4672'',
            PLACE_INDEX = None, geocode_label = (\<lambda>lon lat. None),
            TRACKER = None, utcfromtimestamp_str = (\<lambda>x. Inl ValueError)\<rparr>"

definition batch_event :: event where
  "batch_event =
     \<lparr>httpMethod = Some ''POST'', http_method = None,
      ev_body = Decoded (JObj [(''deviceId'', JStr ''d1''),
                  (''locations'', JArr [JObj [(''latitude'', JNum 35.68), (''longitude'', JNum 139.76),
                                              (''timestamp'', JNum 1714557600000)]])])\<rparr>"

text \<open>
  An environment with the tracker configured, whose library formats the sample time of
  \<open>batch_event\<close> and, like CPython, rejects the year 56302; and a batch whose one
  timestamp, 1714557600000000, is the same instant in microseconds: above \<open>1e12\<close>, so
  \<open>_to_ms\<close> takes it for milliseconds.
\<close>

definition env_tracker :: ingest_env where
  "env_tracker = env0 \<lparr>TRACKER := Some ''awsloc-tracker'',
       utcfromtimestamp_str :=
         (\<lambda>x. if x = 1714557600 then Inr ''2024-05-01T10:00:00Z'' else Inl ValueError)\<rparr>"

definition micros_event :: event where
  "micros_event =
     \<lparr>httpMethod = Some ''POST'', http_method = None,
      ev_body = Decoded (JObj [(''deviceId'', JStr ''d1''),
                  (''locations'', JArr [JObj [(''latitude'', JNum 35.68), (''longitude'', JNum 139.76),
                                              (''timestamp'', JNum 1714557600000000)]])])\<rparr>"

section \<open>Merge stage (awsloc-processor.py)\<close>

text \<open>
  The library functions that \<open>iso\<close> and \<open>float\<close> call, as parameters:
  \<open>fromtimestamp_iso x\<close> is
  \<open>datetime.fromtimestamp(x, tz=utc).isoformat().replace("+00:00", "Z")\<close>,
  \<open>fromisoformat_iso s\<close> is
  \<open>datetime.fromisoformat(s.replace("Z", "+00:00")).astimezone(utc).isoformat().replace("+00:00", "Z")\<close>
  and \<open>float_str s\<close> is \<open>float(s)\<close>, each \<open>None\<close> where the call raises. The clock
  is the string \<open>now\<close> that \<open>datetime.utcnow()\<close>, formatted the same way, gives at the
  call.
\<close>

record merge_lib =
  fromtimestamp_iso :: "real \<Rightarrow> string option"
  fromisoformat_iso :: "string \<Rightarrow> string option"
  float_str :: "string \<Rightarrow> real option"

definition iso :: "merge_lib \<Rightarrow> string \<Rightarrow> jv \<Rightarrow> error + string" where
  "iso L now dt =
     (case dt of
        JNum x \<Rightarrow>
          (case fromtimestamp_iso L (if x > 10 ^ 12 then x / 1000 else x) of
             None \<Rightarrow> Inl ValueError
           | Some s \<Rightarrow> Inr s)
      | JStr s \<Rightarrow> (case fromisoformat_iso L s of None \<Rightarrow> Inr s | Some t \<Rightarrow> Inr t)
      | _ \<Rightarrow> Inr now)"

definition day_from_iso :: "string \<Rightarrow> string" where
  "day_from_iso ts_iso = take 10 ts_iso"

text \<open>
  A normalized record \<open>{deviceId, lat, lon, ts}\<close> with float coordinates, and the
  dict it is in Python.
\<close>

record point =
  pt_deviceId :: jv
  pt_lat :: real
  pt_lon :: real
  pt_ts :: jv

definition to_dict :: "point \<Rightarrow> dict" where
  "to_dict p = [(''deviceId'', pt_deviceId p), (''lat'', JNum (pt_lat p)),
                (''lon'', JNum (pt_lon p)), (''ts'', pt_ts p)]"

text \<open>
  \<open>normalize_payload\<close>: \<open>make_point\<close> is the test for None and the dict built from
  one location (\<open>Inr None\<close> is \<open>continue\<close>); the conversions are outside every
  \<open>try\<close>, so an error ends the whole call.
\<close>

definition make_point :: "merge_lib \<Rightarrow> string \<Rightarrow> jv \<Rightarrow> jv \<Rightarrow> jv \<Rightarrow> jv \<Rightarrow> error + dict option" where
  "make_point L now device_id lat_v lon_v ts_v =
     (if lat_v = JNull \<or> lon_v = JNull \<or> ts_v = JNull then Inr None
      else case py_float (float_str L) lat_v of
             Inl e \<Rightarrow> Inl e
           | Inr la \<Rightarrow>
              (case py_float (float_str L) lon_v of
                 Inl e \<Rightarrow> Inl e
               | Inr lo \<Rightarrow>
                  (case iso L now ts_v of
                     Inl e \<Rightarrow> Inl e
                   | Inr t \<Rightarrow> Inr (Some (to_dict \<lparr>pt_deviceId = device_id, pt_lat = la,
                                                   pt_lon = lo, pt_ts = JStr t\<rparr>)))))"



text \<open>
  From here on a Python string is read as its UTF-8 bytes (the order of two strings is
  the same on bytes and on code points). \<open>str.splitlines()\<close> cuts a text at the line
  feed and also, among the characters that \<open>json.dumps(_, ensure_ascii=False)\<close> writes
  unescaped inside a string, at U+0085, U+2028 and U+2029: \<open>line_break s\<close> tells whether
  \<open>s\<close> holds one of the three, and \<open>breaks v\<close> whether a string or a key inside the
  value \<open>v\<close> does.
\<close>

fun line_break :: "string \<Rightarrow> bool" where
  "line_break (a # b # cs) =
     (if a = CHR 0xC2 \<and> b = CHR 0x85 then True
      else if a = CHR 0xE2 \<and> b = CHR 0x80 \<and> take 1 cs = [CHR 0xA8] then True
      else if a = CHR 0xE2 \<and> b = CHR 0x80 \<and> take 1 cs = [CHR 0xA9] then True
      else line_break (b # cs))"
| "line_break cs = False"

fun breaks :: "jv \<Rightarrow> bool" where
  "breaks (JStr s) = line_break s"
| "breaks (JArr xs) = list_ex breaks xs"
| "breaks (JObj kvs) = list_ex (\<lambda>(k, v). line_break k \<or> breaks v) kvs"
| "breaks v = False"

text \<open>
  A Python float: \<open>float()\<close> reads the strings \<open>nan\<close> and \<open>inf\<close>, \<open>json.loads\<close> reads
  the literals \<open>NaN\<close> and \<open>Infinity\<close>, and \<open>json.dumps\<close> writes them back, so the
  coordinates of a record on the write path can be any of the four. \<open>round(x, 6)\<close>
  leaves the three special values as they are.
\<close>

datatype pyfloat = Fin real | PosInf | NegInf | NaN

fun round6 :: "pyfloat \<Rightarrow> pyfloat" where
  "round6 (Fin x) = Fin (py_round x 6)"
| "round6 x = x"

text \<open>
  The dicts that \<open>write_merged_jsonl\<close> works on. Both lists it puts together, the one
  of \<open>load_existing_jsonl\<close> and the \<open>new_records\<close> of \<open>normalize_payload\<close>, hold dicts
  with exactly the keys \<open>deviceId\<close>, \<open>lat\<close>, \<open>lon\<close>, \<open>ts\<close>, with floats for \<open>lat\<close> and
  \<open>lon\<close>. \<open>of_point p\<close> is the dict \<open>to_dict p\<close> read this way.
\<close>

record prec =
  rec_deviceId :: jv
  rec_lat :: pyfloat
  rec_lon :: pyfloat
  rec_ts :: jv

definition of_point :: "point \<Rightarrow> prec" where
  "of_point p = \<lparr>rec_deviceId = pt_deviceId p, rec_lat = Fin (pt_lat p), rec_lon = Fin (pt_lon p),
                 rec_ts = pt_ts p\<rparr>"

text \<open>
  A line of points.jsonl, of three kinds. \<open>Malformed\<close>: a blank line or a text that
  \<open>json.loads\<close> rejects. \<open>Json v\<close>: a piece between two cuts of \<open>splitlines\<close> that
  \<open>json.loads\<close> decodes to the value \<open>v\<close> (with finite numbers). \<open>Dumped r\<close>: the text
  \<open>json.dumps(r, ensure_ascii=False)\<close> of a record, which is what \<open>write_merged_jsonl\<close>
  puts between two line feeds. When a string of \<open>r\<close> holds one of the three characters
  above, \<open>splitlines\<close> cuts that text inside the string: the first piece ends in an open
  string, the last one starts inside it, one in between holds no quote, so no piece
  decodes to a dict with coordinates and the record is not loaded. Otherwise the text
  decodes to \<open>r\<close> itself. An object that does not exist or is not UTF-8 reads as no
  lines. Two records equal here are written as the same text, as long as a number
  inside \<open>deviceId\<close> or \<open>ts\<close> is not an int in the one and the equal float in the
  other, which \<open>JNum\<close> does not tell apart.

  \<open>ts_or_iso\<close> is the expression \<open>r.get("ts") or iso(r.get("timestamp"))\<close> on a
  decoded line; in \<open>load_line\<close> every exception skips the line.
\<close>

datatype line = Malformed | Json jv | Dumped prec

definition ts_or_iso :: "merge_lib \<Rightarrow> string \<Rightarrow> dict \<Rightarrow> error + jv" where
  "ts_or_iso L now r =
     (if truthy (dict_get r ''ts'' JNull) then Inr (dict_get r ''ts'' JNull)
      else case iso L now (dict_get r ''timestamp'' JNull) of
             Inl e \<Rightarrow> Inl e
           | Inr s \<Rightarrow> Inr (JStr s))"

definition load_json :: "merge_lib \<Rightarrow> string \<Rightarrow> dict \<Rightarrow> prec option" where
  "load_json L now r =
     (let lat_v = dict_get r ''lat'' (dict_get r ''latitude'' JNull);
          lon_v = dict_get r ''lon'' (dict_get r ''longitude'' JNull)
      in case ts_or_iso L now r of
           Inl e \<Rightarrow> None
         | Inr ts_v \<Rightarrow>
            if lat_v = JNull \<or> lon_v = JNull \<or> ts_v = JNull then None
            else (case py_float (float_str L) lat_v of
                    Inl e \<Rightarrow> None
                  | Inr la \<Rightarrow>
                     (case py_float (float_str L) lon_v of
                        Inl e \<Rightarrow> None
                      | Inr lo \<Rightarrow>
                         Some \<lparr>rec_deviceId = dict_get r ''deviceId'' (JStr ''web-unknown''),
                               rec_lat = Fin la, rec_lon = Fin lo, rec_ts = ts_v\<rparr>)))"

definition load_dumped :: "string \<Rightarrow> prec \<Rightarrow> prec option" where
  "load_dumped now q =
     (if breaks (rec_deviceId q) \<or> breaks (rec_ts q) then None
      else Some \<lparr>rec_deviceId = rec_deviceId q, rec_lat = rec_lat q, rec_lon = rec_lon q,
                 rec_ts = (if truthy (rec_ts q) then rec_ts q else JStr now)\<rparr>)"

definition load_line :: "merge_lib \<Rightarrow> string \<Rightarrow> line \<Rightarrow> prec option" where
  "load_line L now row =
     (case row of
        Malformed \<Rightarrow> None
      | Json v \<Rightarrow> (case v of JObj r \<Rightarrow> load_json L now r | _ \<Rightarrow> None)
      | Dumped q \<Rightarrow> load_dumped now q)"

definition load_existing_jsonl :: "merge_lib \<Rightarrow> string \<Rightarrow> line list \<Rightarrow> prec list" where
  "load_existing_jsonl L now content = List.map_filter (load_line L now) content"

text \<open>
  \<open>norm\<close>, the local function of \<open>write_merged_jsonl\<close>. On a dict of the four keys
  \<open>float()\<close> returns the float it is given and \<open>p.get("timestamp")\<close> is None, so
  \<open>norm\<close> copies the record and gives it the clock for a ts that is not truthy.
\<close>

definition norm :: "string \<Rightarrow> prec \<Rightarrow> prec" where
  "norm now p =
     \<lparr>rec_deviceId = rec_deviceId p, rec_lat = rec_lat p, rec_lon = rec_lon p,
      rec_ts = (if truthy (rec_ts p) then rec_ts p else JStr now)\<rparr>"

text \<open>
  The key \<open>(ts, round(lat, 6), round(lon, 6))\<close> is looked up in a set. A ts that is a
  list or a dict cannot be hashed: the TypeError is caught and the record skipped. A
  tuple is found in the set when each of its entries is the same object as, or equal
  to, the entry of a member; \<open>round\<close> returns a new float each time and NaN is not equal
  to NaN, so a key with a NaN coordinate is never found (\<open>key_in\<close>).
\<close>

fun hashable :: "jv \<Rightarrow> bool" where
  "hashable (JArr xs) = False"
| "hashable (JObj kvs) = False"
| "hashable v = True"

type_synonym key = "jv \<times> pyfloat \<times> pyfloat"

definition rec_key :: "prec \<Rightarrow> key" where
  "rec_key q = (rec_ts q, round6 (rec_lat q), round6 (rec_lon q))"

definition nan_free :: "key \<Rightarrow> bool" where
  "nan_free k = (fst (snd k) \<noteq> NaN \<and> snd (snd k) \<noteq> NaN)"

definition key_in :: "key \<Rightarrow> key set \<Rightarrow> bool" where
  "key_in k seen = (nan_free k \<and> k \<in> seen)"

fun dedup_loop :: "string \<Rightarrow> key set \<Rightarrow> prec list \<Rightarrow> prec list \<Rightarrow> prec list" where
  "dedup_loop now seen uniq [] = uniq"
| "dedup_loop now seen uniq (p # ps) =
     (let q = norm now p
      in if \<not> hashable (rec_ts q) then dedup_loop now seen uniq ps
         else if key_in (rec_key q) seen then dedup_loop now seen uniq ps
         else dedup_loop now (insert (rec_key q) seen) (uniq @ [q]) ps)"

text \<open>
  \<open>uniq.sort(key=lambda x: x["ts"])\<close>: a stable sort. The ts of a record that reached
  \<open>uniq\<close> is a string or a number; strings compare with strings and numbers with
  numbers, and a list that holds both makes the sort raise TypeError, which nothing
  catches.
\<close>

fun is_str :: "jv \<Rightarrow> bool" where
  "is_str (JStr s) = True"
| "is_str v = False"

fun is_num :: "jv \<Rightarrow> bool" where
  "is_num (JNum x) = True"
| "is_num v = False"

fun str_val :: "jv \<Rightarrow> string" where
  "str_val (JStr s) = s"
| "str_val v = []"

fun num_val :: "jv \<Rightarrow> real" where
  "num_val (JNum x) = x"
| "num_val v = 0"

definition sort_by_ts :: "prec list \<Rightarrow> error + prec list" where
  "sort_by_ts uniq =
     (if list_all (\<lambda>q. is_str (rec_ts q)) uniq then Inr (sort_key (\<lambda>q. str_val (rec_ts q)) uniq)
      else if list_all (\<lambda>q. is_num (rec_ts q)) uniq then Inr (sort_key (\<lambda>q. num_val (rec_ts q)) uniq)
      else Inl TypeError)"

text \<open>
  \<open>write_merged_jsonl\<close>: \<open>merge_points\<close> is the list \<open>uniq\<close> after the sort, and
  the function returns the new content of points.jsonl, one line per record (or the
  error, and then nothing is written).
\<close>

definition merge_points :: "merge_lib \<Rightarrow> string \<Rightarrow> line list \<Rightarrow> prec list \<Rightarrow> error + prec list" where
  "merge_points L now content new_records =
     (let existing = load_existing_jsonl L now content;
          merged = existing @ new_records
      in sort_by_ts (dedup_loop now {} [] merged))"

definition write_merged_jsonl :: "merge_lib \<Rightarrow> string \<Rightarrow> line list \<Rightarrow> prec list \<Rightarrow> error + line list" where
  "write_merged_jsonl L now content new_records =
     (case merge_points L now content new_records of
        Inl e \<Rightarrow> Inl e
      | Inr uniq \<Rightarrow> Inr (map Dumped uniq))"


text \<open>
  The records that the loop can key, in order: the loaded and the new records after
  \<open>norm\<close>, without those whose ts cannot be hashed. \<open>first_occ\<close> keeps of such a list
  the first record of each key, and every record whose key holds a NaN: the loop
  computes exactly this.
\<close>

definition keyed :: "string \<Rightarrow> prec list \<Rightarrow> prec list" where
  "keyed now merged = filter (\<lambda>q. hashable (rec_ts q)) (map (norm now) merged)"



text \<open>The library on the timestamps of the examples, two clock readings, and example data.\<close>

definition lib0 :: merge_lib where
  "lib0 = \<lparr>fromtimestamp_iso = (\<lambda>x. if x = 1714557600 then Some ''2024-05-01T10:00:00Z'' else None),
            fromisoformat_iso = (\<lambda>s. if s = ''2024-05-01T10:00:00Z'' then Some ''2024-05-01T10:00:00Z''
                                      else if s = ''2024-05-01T10:05:00Z'' then Some ''2024-05-01T10:05:00Z''
                                      else None),
            float_str = (\<lambda>s. None)\<rparr>"

definition now_1 :: string where "now_1 = ''2024-05-02T08:00:00.000001Z''"
definition now_2 :: string where "now_2 = ''2024-05-02T08:00:05.000002Z''"


definition pt :: "real \<Rightarrow> real \<Rightarrow> string \<Rightarrow> point" where
  "pt la lo t = \<lparr>pt_deviceId = JStr ''d1'', pt_lat = la, pt_lon = lo, pt_ts = JStr t\<rparr>"

definition rc :: "real \<Rightarrow> real \<Rightarrow> string \<Rightarrow> prec" where
  "rc la lo t = of_point (pt la lo t)"


text \<open>A record whose latitude is NaN, as \<open>float("nan")\<close> or the literal \<open>NaN\<close> give it.\<close>

definition rec_nan :: prec where
  "rec_nan = \<lparr>rec_deviceId = JStr ''d1'', rec_lat = NaN, rec_lon = Fin 139.76,
              rec_ts = JStr ''2024-05-01T10:00:00Z''\<rparr>"

section \<open>Properties of the Trips stage\<close>





lemma then3_Inr: "then3 (Inr u) (Inr v) = Inr (plus3 u v)"
  by (simp add: then3_def)

lemma pair_loop_acc:
  "pair_loop fos rnd calc route xs trips sk cr =
     then3 (Inr (trips, sk, cr)) (pair_loop fos rnd calc route xs [] 0 0)"
proof (induction xs arbitrary: trips sk cr)
  case Nil
  then show ?case by (simp add: then3_def plus3_def)
next
  case (Cons x xs)
  show ?case
  proof (cases xs)
    case Nil
    then show ?thesis by (simp add: then3_def plus3_def)
  next
    case (Cons y ys)
    note IH = Cons.IH [unfolded Cons]
    show ?thesis
    proof (cases "\<not> stay_center_ok x \<or> \<not> stay_center_ok y")
      case True
      then show ?thesis
        unfolding Cons
        using IH [of trips "sk + 1" cr] IH [of "[]" 1 0]
        by (simp add: then3_def plus3_def split: sum.splits)
    next
      case False
      show ?thesis
      proof (cases "make_trip fos rnd calc route x y")
        case (Inl e)
        with False show ?thesis unfolding Cons by (simp add: then3_def)
      next
        case (Inr t)
        with False show ?thesis
          unfolding Cons
          using IH [of "trips @ [t]" sk "cr + 1"] IH [of "[t]" 0 1]
          by (simp add: then3_def plus3_def split: sum.splits)
      qed
    qed
  qed
qed

lemma pair_loop_step:
  "pair_loop fos rnd calc route (a # b # rest) [] 0 0 =
     then3 (pair_step fos rnd calc route a b) (pair_loop fos rnd calc route (b # rest) [] 0 0)"
proof (cases "\<not> stay_center_ok a \<or> \<not> stay_center_ok b")
  case True
  then show ?thesis
    using pair_loop_acc [of fos rnd calc route "b # rest" "[]" 1 0]
    by (simp add: pair_step_def)
next
  case False
  show ?thesis
  proof (cases "make_trip fos rnd calc route a b")
    case (Inl e)
    with False show ?thesis by (simp add: pair_step_def then3_def)
  next
    case (Inr t)
    with False show ?thesis
      using pair_loop_acc [of fos rnd calc route "b # rest" "[t]" 0 1]
      by (simp add: pair_step_def)
  qed
qed




text \<open>
  What the loop returns when it returns: one trip for each consecutive pair with both
  centers, in order, and one skip for each other pair.
\<close>

lemma pair_loop_returns:
  "pair_loop fos rnd calc route xs [] 0 0 = Inr (ts, sk, cr) \<Longrightarrow>
   map Inr ts = map (\<lambda>p. make_trip fos rnd calc route (fst p) (snd p))
                  (filter (\<lambda>p. \<not> missing_center p) (adjacent_pairs xs))
   \<and> sk = length (filter missing_center (adjacent_pairs xs))
   \<and> cr = length ts"
proof (induction xs arbitrary: ts sk cr)
  case Nil
  then show ?case by (simp add: adjacent_pairs_def)
next
  case (Cons x xs)
  show ?case
  proof (cases xs)
    case Nil
    with Cons.prems show ?thesis by (simp add: adjacent_pairs_def)
  next
    case (Cons y ys)
    from Cons.prems have r: "then3 (pair_step fos rnd calc route x y)
            (pair_loop fos rnd calc route (y # ys) [] 0 0) = Inr (ts, sk, cr)"
      unfolding Cons by (simp only: pair_loop_step)
    then obtain u v where u: "pair_step fos rnd calc route x y = Inr u"
      and v: "pair_loop fos rnd calc route (y # ys) [] 0 0 = Inr v"
      and uv: "plus3 u v = (ts, sk, cr)"
      by (auto simp: then3_def split: sum.splits)
    obtain ts' sk' cr' where v': "v = (ts', sk', cr')" by (metis prod_cases3)
    note IH = Cons.IH [unfolded Cons, OF v [unfolded v']]
    show ?thesis
    proof (cases "missing_center (x, y)")
      case True
      with u have "u = ([], 1, 0)" by (auto simp: pair_step_def missing_center_def)
      with uv v' IH True show ?thesis
        unfolding Cons by (auto simp: plus3_def adjacent_pairs_def)
    next
      case False
      with u obtain t where t: "make_trip fos rnd calc route x y = Inr t" and "u = ([t], 0, 1)"
        by (auto simp: pair_step_def missing_center_def split: sum.splits)
      with uv v' IH False show ?thesis
        unfolding Cons by (auto simp: plus3_def adjacent_pairs_def)
    qed
  qed
qed

lemma adjacent_pairs_length: "length (adjacent_pairs xs) = length xs - 1"
  by (simp add: adjacent_pairs_def)

text \<open>
  The pairing law holds of every run that returns: the trips are the trips of the
  consecutive pairs of the sorted list with both centers, \<open>skipped_missing_center\<close> counts
  the other pairs, and so the number of trips is \<open>max(0, |stays| - 1)\<close> minus the skipped.
\<close>

lemma make_trips_returns:
  assumes "make_trips_from_stays fos rnd calc route stays = Inr (ts, sk, cr)"
  shows "map Inr ts = map (\<lambda>p. make_trip fos rnd calc route (fst p) (snd p))
                  (filter (\<lambda>p. \<not> missing_center p) (adjacent_pairs (sort_key stay_key stays)))"
    and "sk = length (filter missing_center (adjacent_pairs (sort_key stay_key stays)))"
    and "cr = length ts"
    and "int (length ts) = max 0 (int (length stays) - 1) - int sk"
proof -
  let ?srt = "sort_key stay_key stays"
  have r: "pair_loop fos rnd calc route ?srt [] 0 0 = Inr (ts, sk, cr)"
  proof (cases "length stays < 2")
    case True
    then have "length ?srt < 2" by simp
    then have "?srt = [] \<or> (\<exists>x. ?srt = [x])"
      by (cases ?srt) (auto simp: less_Suc_eq)
    with True assms show ?thesis by (auto simp: make_trips_from_stays_def)
  next
    case False
    with assms show ?thesis by (simp add: make_trips_from_stays_def)
  qed
  note p = pair_loop_returns [OF r]
  from p show a: "map Inr ts = map (\<lambda>p. make_trip fos rnd calc route (fst p) (snd p))
                  (filter (\<lambda>p. \<not> missing_center p) (adjacent_pairs ?srt))" by simp
  from p show b: "sk = length (filter missing_center (adjacent_pairs ?srt))" by simp
  from p show "cr = length ts" by simp
  have "length ts = length (filter (\<lambda>p. \<not> missing_center p) (adjacent_pairs ?srt))"
    using arg_cong [OF a, of length] by simp
  then have "length ts + sk = length (adjacent_pairs ?srt)"
    using b sum_length_filter_compl [of missing_center "adjacent_pairs ?srt"] by simp
  then have "length ts + sk = length stays - 1" by (simp add: adjacent_pairs_length)
  then show "int (length ts) = max 0 (int (length stays) - 1) - int sk" by linarith
qed

lemma antipodal_raises: "haversine_km rnd_antipodal (- 12) (- 180) 12 0 = Inl ValueError"
proof -
  let ?x = "radians 12"
  have d1: "radians (12 - (- 12)) / 2 = ?x" by (simp add: radians_def)
  have d2: "radians (0 - (- 180)) / 2 = pi / 2" by (simp add: radians_def)
  have d3: "radians (- 12) = - ?x" by (simp add: radians_def)
  have "(sin ?x)\<^sup>2 + cos (- ?x) * cos ?x * (sin (pi / 2))\<^sup>2 = (sin ?x)\<^sup>2 + (cos ?x)\<^sup>2"
    by (simp add: power2_eq_square)
  also have "\<dots> = 1" by (rule sin_cos_squared_add)
  finally have a: "(sin ?x)\<^sup>2 + cos (- ?x) * cos ?x * (sin (pi / 2))\<^sup>2 = 1" .
  show ?thesis
    unfolding haversine_km_def Let_def d1 d2 d3 a
    by (simp add: rnd_antipodal_def)
qed

lemma antipodal_exact: "haversine_km exact (- 12) (- 180) 12 0 = Inr (6371.0088 * pi)"
proof -
  let ?x = "radians 12"
  have d1: "radians (12 - (- 12)) / 2 = ?x" by (simp add: radians_def)
  have d2: "radians (0 - (- 180)) / 2 = pi / 2" by (simp add: radians_def)
  have d3: "radians (- 12) = - ?x" by (simp add: radians_def)
  have "(sin ?x)\<^sup>2 + cos (- ?x) * cos ?x * (sin (pi / 2))\<^sup>2 = (sin ?x)\<^sup>2 + (cos ?x)\<^sup>2"
    by (simp add: power2_eq_square)
  also have "\<dots> = 1" by (rule sin_cos_squared_add)
  finally have a: "(sin ?x)\<^sup>2 + cos (- ?x) * cos ?x * (sin (pi / 2))\<^sup>2 = 1" .
  show ?thesis
    unfolding haversine_km_def Let_def d1 d2 d3 a
    by (simp add: exact_def atan2_def)
qed

text \<open>
  C7. The pairing law says that a list of two stays with both centers gives one trip.
  For the antipodal centers of \<open>stay_p\<close> and \<open>stay_q\<close>, with no route calculator
  configured, the double \<open>a\<close> of \<open>haversine_km\<close> is just above 1, \<open>math.sqrt(1-a)\<close> raises
  ValueError, and \<open>make_trips_from_stays\<close> raises with it: no trip is emitted although no
  pair has a missing center. In exact arithmetic the same list gives its one trip.
\<close>

theorem C7_antipodal_pair_raises:
  "make_trips_from_stays (\<lambda>s. None) rnd_antipodal None (\<lambda>p q. GenericError) [stay_p, stay_q]
     = Inl ValueError
   \<and> stay_center_ok stay_p \<and> stay_center_ok stay_q
   \<and> map_sum id (\<lambda>r. (length (fst r), snd r))
       (make_trips_from_stays (\<lambda>s. None) exact None (\<lambda>p q. GenericError) [stay_p, stay_q])
     = Inr (1, 0, 1)"
proof -
  have k: "stay_key stay_p = ''2024-05-01T09:10:00Z''" "stay_key stay_q = ''2024-05-02T11:30:00Z''"
    by (simp_all add: stay_key_def or_str_def stay_p_def stay_q_def)
  have s: "sort_key stay_key [stay_p, stay_q] = [stay_p, stay_q]"
    by (simp add: k)
  have ok: "stay_center_ok stay_p" "stay_center_ok stay_q"
    by (simp_all add: stay_center_ok_def stay_p_def stay_q_def)
  have b1: "build_route_coords (\<lambda>s. None) rnd_antipodal None (\<lambda>p q. GenericError)
              (Some (- 180)) (Some (- 12)) (Some 0) (Some 12) = Inl ValueError"
    by (simp add: build_route_coords_def antipodal_raises)
  have b2: "build_route_coords (\<lambda>s. None) exact None (\<lambda>p q. GenericError)
              (Some (- 180)) (Some (- 12)) (Some 0) (Some 12)
            = Inr ([(Some (- 180), Some (- 12)), (Some 0, Some 12)], Some (6371.0088 * pi), True)"
    by (simp add: build_route_coords_def antipodal_exact)
  have m1: "make_trip (\<lambda>s. None) rnd_antipodal None (\<lambda>p q. GenericError) stay_p stay_q
              = Inl ValueError"
    by (simp add: make_trip_def safe_float_def stay_p_def stay_q_def b1)
  have m2: "\<exists>t. make_trip (\<lambda>s. None) exact None (\<lambda>p q. GenericError) stay_p stay_q = Inr t"
    by (simp add: make_trip_def safe_float_def stay_p_def stay_q_def b2 Let_def)
  then obtain t where t: "make_trip (\<lambda>s. None) exact None (\<lambda>p q. GenericError) stay_p stay_q = Inr t"
    by blast
  have e1: "make_trips_from_stays (\<lambda>s. None) rnd_antipodal None (\<lambda>p q. GenericError)
              [stay_p, stay_q] = Inl ValueError"
    unfolding make_trips_from_stays_def s by (simp add: ok m1)
  have e2: "make_trips_from_stays (\<lambda>s. None) exact None (\<lambda>p q. GenericError) [stay_p, stay_q]
              = Inr ([t], 0, 1)"
    unfolding make_trips_from_stays_def s by (simp add: ok t)
  show ?thesis
    unfolding e1 e2 by (simp add: ok)
qed



lemma atan2_sin_cos:
  assumes "0 \<le> x" "x < pi / 2"
  shows "atan2 (sqrt ((sin x)\<^sup>2)) (sqrt (1 - (sin x)\<^sup>2)) = x"
proof -
  have s: "0 \<le> sin x" using assms by (intro sin_ge_zero) auto
  have c: "0 < cos x" using assms by (intro cos_gt_zero_pi) auto
  have "1 - (sin x)\<^sup>2 = (cos x)\<^sup>2"
    using sin_cos_squared_add [of x] by linarith
  then have "sqrt (1 - (sin x)\<^sup>2) = cos x" using c by simp
  moreover have "sqrt ((sin x)\<^sup>2) = sin x" using s by simp
  moreover have "arctan (sin x / cos x) = x"
    using arctan_tan [of x] assms by (simp add: tan_def)
  ultimately show ?thesis using c by (simp add: atan2_def)
qed

lemma haversine_km_equator:
  assumes "lon1 \<le> lon2" "lon2 - lon1 < 180"
  shows "haversine_km exact 0 lon1 0 lon2 = Inr (6371.0088 * (lon2 - lon1) * pi / 180)"
proof -
  let ?x = "radians (lon2 - lon1) / 2"
  have x0: "0 \<le> ?x" using assms by (simp add: radians_def)
  have "(lon2 - lon1) * pi < 180 * pi" using assms pi_gt_zero by simp
  then have x1: "?x < pi / 2" by (simp add: radians_def)
  have le: "(sin ?x)\<^sup>2 \<le> 1" by (simp add: abs_square_le_1)
  have "haversine_km exact 0 lon1 0 lon2
          = Inr (6371.0088 * (2 * atan2 (sqrt ((sin ?x)\<^sup>2)) (sqrt (1 - (sin ?x)\<^sup>2))))"
    using le by (simp add: haversine_km_def exact_def radians_def Let_def)
  also have "\<dots> = Inr (6371.0088 * (2 * ?x))"
    by (simp only: atan2_sin_cos [OF x0 x1])
  also have "6371.0088 * (2 * ?x) = 6371.0088 * (lon2 - lon1) * pi / 180"
    by (simp add: radians_def)
  finally show ?thesis .
qed

lemma haversine_km_0_1: "haversine_km exact 0 0 0 1 = Inr (6371.0088 * pi / 180)"
  using haversine_km_equator [of 0 1] by simp

lemma route_try_fallback:
  assumes "Legs resp = [] \<or> (\<forall>p ps. LineString (hd (Legs resp)) \<noteq> JArr (p # ps))
           \<or> (\<exists>ps. LineString (hd (Legs resp)) = JArr ps \<and> route_points fos ps = [])"
  shows "route_try fos fb hav resp = route_return fb True (dist_or (summary_distance resp) hav)"
  using assms
  by (auto simp: route_try_def Let_def split: list.splits jv.splits)

text \<open>
  C6 (as amended). For a trip pair with four numeric coordinates whose route request
  falls back (calculator unconfigured, an error raised, a response with no legs, with no
  non-empty LineString list in its first leg, or with no usable point in it), and for
  which the haversine computation, where the code runs it, returns a distance \<open>h\<close>:
  the geometry is exactly the two-point line from the source to the destination and
  \<open>fallback\<close> is true. The distance is \<open>h\<close> when the calculator is unconfigured or the
  call raises; after a response it is the response's \<open>Summary.Distance\<close> when that is
  present and not zero (the haversine distance is then not computed), and \<open>h\<close> otherwise.
\<close>

theorem C6_fallback_line_and_distance:
  assumes cause:
      "calc = None \<or> route (slon, slat) (dlon, dlat) = ClientError
       \<or> route (slon, slat) (dlon, dlat) = GenericError
       \<or> (\<exists>resp. route (slon, slat) (dlon, dlat) = Response resp \<and>
             (Legs resp = [] \<or> (\<forall>p ps. LineString (hd (Legs resp)) \<noteq> JArr (p # ps))
              \<or> (\<exists>ps. LineString (hd (Legs resp)) = JArr ps \<and> route_points fos ps = [])))"
    and hav:
      "haversine_km rnd slat slon dlat dlon = Inr h
       \<or> (calc \<noteq> None \<and> (\<exists>resp d. route (slon, slat) (dlon, dlat) = Response resp \<and>
                               summary_distance resp = Some d \<and> d \<noteq> 0))"
  shows "build_route_coords fos rnd calc route (Some slon) (Some slat) (Some dlon) (Some dlat) =
           Inr ([(Some slon, Some slat), (Some dlon, Some dlat)],
                Some (if calc = None then h
                      else case route (slon, slat) (dlon, dlat) of
                             Response resp \<Rightarrow>
                               (case summary_distance resp of
                                  None \<Rightarrow> h
                                | Some d \<Rightarrow> if d \<noteq> 0 then d else h)
                           | _ \<Rightarrow> h),
                True)"
proof (cases calc)
  case None
  with hav show ?thesis by (simp add: build_route_coords_def)
next
  case (Some name)
  show ?thesis
  proof (cases "route (slon, slat) (dlon, dlat)")
    case ClientError
    with Some hav show ?thesis by (simp add: build_route_coords_def route_except_def)
  next
    case GenericError
    with Some hav show ?thesis by (simp add: build_route_coords_def route_except_def)
  next
    case (Response resp)
    with Some cause have
      "Legs resp = [] \<or> (\<forall>p ps. LineString (hd (Legs resp)) \<noteq> JArr (p # ps))
       \<or> (\<exists>ps. LineString (hd (Legs resp)) = JArr ps \<and> route_points fos ps = [])"
      by simp
    note t = route_try_fallback [OF this]
    show ?thesis
    proof (cases "\<exists>d. summary_distance resp = Some d \<and> d \<noteq> 0")
      case True
      then obtain d where "summary_distance resp = Some d" "d \<noteq> 0" by blast
      with Some Response show ?thesis
        by (simp add: build_route_coords_def t route_return_def dist_or_def)
    next
      case False
      with hav Response have h: "haversine_km rnd slat slon dlat dlon = Inr h" by auto
      from False have "dist_or (summary_distance resp) (Inr h) = Inr h"
        by (auto simp: dist_or_def split: option.splits)
      with Some Response h False show ?thesis
        by (auto simp: build_route_coords_def t route_return_def split: option.splits)
    qed
  qed
qed

theorem C6_fallback_line_and_distance_witness:
  "haversine_km exact 0 0 0 1 = Inr (6371.0088 * pi / 180)
   \<and> build_route_coords (\<lambda>s. None) exact None (\<lambda>p q. GenericError)
       (Some 0) (Some 0) (Some 1) (Some 0) =
     Inr ([(Some 0, Some 0), (Some 1, Some 0)], Some (6371.0088 * pi / 180), True)
   \<and> build_route_coords (\<lambda>s. None) exact (Some ''calc'') (\<lambda>p q. ClientError)
       (Some 0) (Some 0) (Some 1) (Some 0) =
     Inr ([(Some 0, Some 0), (Some 1, Some 0)], Some (6371.0088 * pi / 180), True)
   \<and> build_route_coords (\<lambda>s. None) exact (Some ''calc'')
       (\<lambda>p q. Response \<lparr>summary_distance = None, Legs = [\<lparr>LineString = JNull\<rparr>]\<rparr>)
       (Some 0) (Some 0) (Some 1) (Some 0) =
     Inr ([(Some 0, Some 0), (Some 1, Some 0)], Some (6371.0088 * pi / 180), True)
   \<and> build_route_coords (\<lambda>s. None) exact (Some ''calc'')
       (\<lambda>p q. Response \<lparr>summary_distance = Some 150, Legs = []\<rparr>)
       (Some 0) (Some 0) (Some 1) (Some 0) =
     Inr ([(Some 0, Some 0), (Some 1, Some 0)], Some 150, True)
   \<and> haversine_km rnd_antipodal (- 12) (- 180) 12 0 = Inl ValueError
   \<and> build_route_coords (\<lambda>s. None) rnd_antipodal (Some ''calc'')
       (\<lambda>p q. Response \<lparr>summary_distance = Some 20000, Legs = []\<rparr>)
       (Some (- 180)) (Some (- 12)) (Some 0) (Some 12) =
     Inr ([(Some (- 180), Some (- 12)), (Some 0, Some 12)], Some 20000, True)"
  using haversine_km_0_1 antipodal_raises
    C6_fallback_line_and_distance [of None "\<lambda>p q. GenericError" 0 0 1 0 "\<lambda>s. None" exact
      "6371.0088 * pi / 180"]
    C6_fallback_line_and_distance [of "Some ''calc''" "\<lambda>p q. ClientError" 0 0 1 0 "\<lambda>s. None" exact
      "6371.0088 * pi / 180"]
    C6_fallback_line_and_distance [of "Some ''calc''"
      "\<lambda>p q. Response \<lparr>summary_distance = None, Legs = [\<lparr>LineString = JNull\<rparr>]\<rparr>" 0 0 1 0
      "\<lambda>s. None" exact "6371.0088 * pi / 180"]
    C6_fallback_line_and_distance [of "Some ''calc''"
      "\<lambda>p q. Response \<lparr>summary_distance = Some 150, Legs = []\<rparr>" 0 0 1 0
      "\<lambda>s. None" exact "6371.0088 * pi / 180"]
    C6_fallback_line_and_distance [of "Some ''calc''"
      "\<lambda>p q. Response \<lparr>summary_distance = Some 20000, Legs = []\<rparr>" "- 180" "- 12" 0 12
      "\<lambda>s. None" rnd_antipodal 0]
  by simp

text \<open>
  The claim as stated fails after a response without legs that carries a summary
  distance: from (lon 0, lat 0) to (lon 1, lat 0) with \<open>Summary.Distance = 150\<close> the
  function falls back to the straight line and returns 150, not the haversine distance
  (about 111.2 km).
\<close>

theorem C6_distance_counterexample:
  "build_route_coords (\<lambda>s. None) exact (Some ''calc'')
      (\<lambda>p q. Response \<lparr>summary_distance = Some 150, Legs = []\<rparr>)
      (Some 0) (Some 0) (Some 1) (Some 0) =
     Inr ([(Some 0, Some 0), (Some 1, Some 0)], Some 150, True)
   \<and> haversine_km exact 0 0 0 1 \<noteq> Inr 150"
proof -
  have "6371.0088 * pi / 180 < (150::real)"
    using pi_less_4 by simp
  then have "haversine_km exact 0 0 0 1 \<noteq> Inr 150"
    unfolding haversine_km_0_1 by simp
  then show ?thesis
    by (simp add: build_route_coords_def route_try_def route_return_def dist_or_def)
qed

section \<open>Properties of the Segment stage\<close>

lemma arcsin_abs_sin:
  assumes "\<bar>x\<bar> \<le> pi / 2"
  shows "arcsin (sqrt ((sin x)\<^sup>2)) = \<bar>x\<bar>"
proof -
  have "sqrt ((sin x)\<^sup>2) = \<bar>sin x\<bar>" by simp
  also have "\<dots> = sin \<bar>x\<bar>"
  proof (cases "0 \<le> x")
    case True
    then have "0 \<le> sin x" using assms by (intro sin_ge_zero) auto
    with True show ?thesis by simp
  next
    case False
    then have "0 \<le> sin (- x)" using assms by (intro sin_ge_zero) auto
    with False show ?thesis by simp
  qed
  finally show ?thesis using assms by (simp add: arcsin_sin)
qed

lemma haversine_m_equator:
  assumes "\<bar>lon2 - lon1\<bar> \<le> 180"
  shows "haversine_m 0 lon1 0 lon2 = 6371000 * \<bar>lon2 - lon1\<bar> * pi / 180"
proof -
  let ?x = "radians (lon2 - lon1) / 2"
  have "\<bar>lon2 - lon1\<bar> * pi \<le> 180 * pi" using assms pi_gt_zero by simp
  then have x1: "\<bar>?x\<bar> \<le> pi / 2" by (simp add: radians_def abs_mult)
  have "haversine_m 0 lon1 0 lon2 = 2 * 6371000 * arcsin (sqrt ((sin ?x)\<^sup>2))"
    by (simp add: haversine_m_def radians_def Let_def)
  also have "\<dots> = 2 * 6371000 * \<bar>?x\<bar>"
    by (simp only: arcsin_abs_sin [OF x1])
  also have "\<bar>?x\<bar> = \<bar>lon2 - lon1\<bar> * pi / 360"
    by (simp add: radians_def abs_mult)
  finally show ?thesis by simp
qed

lemma haversine_m_same: "haversine_m 0 x 0 x = 0"
  using haversine_m_equator [of x x] by simp

lemma haversine_m_far:
  assumes "1 / 2 \<le> \<bar>l - c\<bar>" "\<bar>l - c\<bar> \<le> 180"
  shows "200 < haversine_m 0 c 0 l"
proof -
  have "1 / 2 * 2 \<le> \<bar>l - c\<bar> * pi"
    using assms(1) pi_ge_two by (intro mult_mono) auto
  then have "1 \<le> \<bar>l - c\<bar> * pi" by simp
  then have "200 < 6371000 * (\<bar>l - c\<bar> * pi) / 180" by linarith
  then show ?thesis using haversine_m_equator [OF assms(2)] by (simp add: mult.assoc)
qed

lemma max_radius_ge: "m \<le> foldl (\<lambda>max_r p. let d = haversine_m latc lonc (p_lat p) (p_lon p)
                       in if d > max_r then d else max_r) m window"
proof (induction window arbitrary: m)
  case Nil
  then show ?case by simp
next
  case (Cons p ps)
  show ?case
    using Cons [of "haversine_m latc lonc (p_lat p) (p_lon p)"] Cons [of m]
    by (auto simp: Let_def)
qed

lemma max_radius_first: "haversine_m latc lonc (p_lat p) (p_lon p) \<le> max_radius latc lonc (p # ps)"
  using max_radius_ge [of "haversine_m latc lonc (p_lat p) (p_lon p)" latc lonc ps]
    max_radius_ge [of 0 latc lonc ps]
  by (auto simp: max_radius_def Let_def)

lemma one_point_steps:
  "seg_step iso2dt_may1 one_point_stay_input 200 300 1 (0, []) = Inr (0, [])"
  "seg_step iso2dt_may1 one_point_stay_input 200 300 2 (0, []) =
     Inr (1, [\<lparr>seg_center = (0, 0), seg_start = ''2024-05-01T09:00:00Z'',
                seg_end = ''2024-05-01T09:00:00Z''\<rparr>])"
proof -
  show "seg_step iso2dt_may1 one_point_stay_input 200 300 1 (0, []) = Inr (0, [])"
    by (simp add: seg_step_def one_point_stay_input_def slice_def centroid_def max_radius_def
        duration_def iso2dt_may1_def haversine_m_same)
  have far: "200 < max_radius 0 (1 / 2) one_point_stay_input"
    using max_radius_first [of 0 "1 / 2" "\<lparr>p_lat = 0, p_lon = 0, p_ts = ''2024-05-01T09:00:00Z''\<rparr>"
        "[\<lparr>p_lat = 0, p_lon = 1, p_ts = ''2024-05-01T09:05:00Z''\<rparr>]"]
      haversine_m_far [of 0 "1 / 2"]
    by (simp add: one_point_stay_input_def)
  show "seg_step iso2dt_may1 one_point_stay_input 200 300 2 (0, []) =
     Inr (1, [\<lparr>seg_center = (0, 0), seg_start = ''2024-05-01T09:00:00Z'',
                seg_end = ''2024-05-01T09:00:00Z''\<rparr>])"
    using far
    by (simp add: seg_step_def one_point_stay_input_def slice_def centroid_def
        duration_def iso2dt_may1_def)
qed

text \<open>
  C8. Every stay emitted under the default thresholds (200 m, 300 s) should cover at
  least two points of the point set. The code emits a one-point stay: for two points
  111 km and 300 s apart, the window of both points exceeds the radius and lasts 300 s,
  so the loop emits the window without its last point, which is the first point alone.
  The emitted stay starts and ends at 09:00:00 and only one point of the input has its
  \<open>ts\<close> in that range.
\<close>

theorem C8_one_point_stay:
  "detect_segments iso2dt_may1 one_point_stay_input STAY_RADIUS_M STAY_MIN_SEC =
     Inr [\<lparr>seg_center = (0, 0), seg_start = ''2024-05-01T09:00:00Z'',
            seg_end = ''2024-05-01T09:00:00Z''\<rparr>]
   \<and> length (filter (\<lambda>p. ''2024-05-01T09:00:00Z'' \<le> p_ts p \<and> p_ts p \<le> ''2024-05-01T09:00:00Z'')
               one_point_stay_input) = 1"
proof -
  have len: "length one_point_stay_input = 2" by (simp add: one_point_stay_input_def)
  have l3: "seg_loop iso2dt_may1 one_point_stay_input 200 300 3 st = Inr st" for st
    by (subst seg_loop.simps) (simp add: len)
  have l2: "seg_loop iso2dt_may1 one_point_stay_input 200 300 2 (0, []) =
          Inr (1, [\<lparr>seg_center = (0, 0), seg_start = ''2024-05-01T09:00:00Z'',
                     seg_end = ''2024-05-01T09:00:00Z''\<rparr>])"
    by (subst seg_loop.simps) (simp add: len one_point_steps l3 del: One_nat_def)
  have l1: "seg_loop iso2dt_may1 one_point_stay_input 200 300 1 (0, []) =
          Inr (1, [\<lparr>seg_center = (0, 0), seg_start = ''2024-05-01T09:00:00Z'',
                     seg_end = ''2024-05-01T09:00:00Z''\<rparr>])"
    by (subst seg_loop.simps) (simp add: len one_point_steps l2 del: One_nat_def)
  have tail: "slice one_point_stay_input 1 2 = [\<lparr>p_lat = 0, p_lon = 1, p_ts = ''2024-05-01T09:05:00Z''\<rparr>]"
    by (simp add: one_point_stay_input_def slice_def)
  have "detect_segments iso2dt_may1 one_point_stay_input STAY_RADIUS_M STAY_MIN_SEC =
     Inr [\<lparr>seg_center = (0, 0), seg_start = ''2024-05-01T09:00:00Z'',
            seg_end = ''2024-05-01T09:00:00Z''\<rparr>]"
    by (simp add: detect_segments_def STAY_RADIUS_M_def STAY_MIN_SEC_def len l1 tail
        centroid_def duration_def iso2dt_may1_def del: One_nat_def)
  moreover have "length (filter (\<lambda>p. ''2024-05-01T09:00:00Z'' \<le> p_ts p \<and> p_ts p \<le> ''2024-05-01T09:00:00Z'')
               one_point_stay_input) = 1"
    by (simp add: one_point_stay_input_def)
  ultimately show ?thesis by simp
qed

lemma short_stay_steps:
  "seg_step iso2dt_may1 short_stay_input 200 300 1 (0, []) = Inr (0, [])"
  "seg_step iso2dt_may1 short_stay_input 200 300 2 (0, []) = Inr (0, [])"
  "seg_step iso2dt_may1 short_stay_input 200 300 3 (0, []) =
     Inr (2, [\<lparr>seg_center = (0, 0), seg_start = ''2024-05-01T09:00:00Z'',
                seg_end = ''2024-05-01T09:01:00Z''\<rparr>])"
proof -
  show "seg_step iso2dt_may1 short_stay_input 200 300 1 (0, []) = Inr (0, [])"
    by (simp add: seg_step_def short_stay_input_def slice_def centroid_def max_radius_def
        duration_def iso2dt_may1_def haversine_m_same)
  show "seg_step iso2dt_may1 short_stay_input 200 300 2 (0, []) = Inr (0, [])"
    by (simp add: seg_step_def short_stay_input_def slice_def centroid_def max_radius_def
        duration_def iso2dt_may1_def haversine_m_same)
  have far: "200 < max_radius 0 1 short_stay_input"
    using max_radius_first [of 0 1 "\<lparr>p_lat = 0, p_lon = 0, p_ts = ''2024-05-01T09:00:00Z''\<rparr>"
        "[\<lparr>p_lat = 0, p_lon = 0, p_ts = ''2024-05-01T09:01:00Z''\<rparr>,
          \<lparr>p_lat = 0, p_lon = 3, p_ts = ''2024-05-01T09:10:00Z''\<rparr>]"]
      haversine_m_far [of 0 1]
    by (simp add: short_stay_input_def)
  show "seg_step iso2dt_may1 short_stay_input 200 300 3 (0, []) =
     Inr (2, [\<lparr>seg_center = (0, 0), seg_start = ''2024-05-01T09:00:00Z'',
                seg_end = ''2024-05-01T09:01:00Z''\<rparr>])"
    using far
    by (simp add: seg_step_def short_stay_input_def slice_def centroid_def
        duration_def iso2dt_may1_def)
qed

text \<open>
  C2. Every emitted segment should last at least the regime's minimum. The code tests
  the duration of the window that includes the point which broke the radius, and emits
  the window without that point: on a time-sorted input it emits a stay from 09:00:00
  to 09:01:00, 60 s long under a minimum of 300 s.
\<close>

theorem C2_short_segment:
  "detect_segments iso2dt_may1 short_stay_input STAY_RADIUS_M STAY_MIN_SEC =
     Inr [\<lparr>seg_center = (0, 0), seg_start = ''2024-05-01T09:00:00Z'',
            seg_end = ''2024-05-01T09:01:00Z''\<rparr>]
   \<and> sorted (map (\<lambda>p. the (iso2dt_may1 (p_ts p))) short_stay_input)
   \<and> the (iso2dt_may1 ''2024-05-01T09:01:00Z'') - the (iso2dt_may1 ''2024-05-01T09:00:00Z'')
       < real_of_int STAY_MIN_SEC"
proof -
  have len: "length short_stay_input = 3" by (simp add: short_stay_input_def)
  have l4: "seg_loop iso2dt_may1 short_stay_input 200 300 4 st = Inr st" for st
    by (subst seg_loop.simps) (simp add: len)
  have l3: "seg_loop iso2dt_may1 short_stay_input 200 300 3 (0, []) =
          Inr (2, [\<lparr>seg_center = (0, 0), seg_start = ''2024-05-01T09:00:00Z'',
                     seg_end = ''2024-05-01T09:01:00Z''\<rparr>])"
    by (subst seg_loop.simps) (simp add: len short_stay_steps l4 del: One_nat_def)
  have l2: "seg_loop iso2dt_may1 short_stay_input 200 300 2 (0, []) =
          Inr (2, [\<lparr>seg_center = (0, 0), seg_start = ''2024-05-01T09:00:00Z'',
                     seg_end = ''2024-05-01T09:01:00Z''\<rparr>])"
    by (subst seg_loop.simps) (simp add: len short_stay_steps l3 del: One_nat_def)
  have l1: "seg_loop iso2dt_may1 short_stay_input 200 300 1 (0, []) =
          Inr (2, [\<lparr>seg_center = (0, 0), seg_start = ''2024-05-01T09:00:00Z'',
                     seg_end = ''2024-05-01T09:01:00Z''\<rparr>])"
    by (subst seg_loop.simps) (simp add: len short_stay_steps l2 del: One_nat_def)
  have tail: "slice short_stay_input 2 3 = [\<lparr>p_lat = 0, p_lon = 3, p_ts = ''2024-05-01T09:10:00Z''\<rparr>]"
    by (simp add: short_stay_input_def slice_def)
  have "detect_segments iso2dt_may1 short_stay_input STAY_RADIUS_M STAY_MIN_SEC =
     Inr [\<lparr>seg_center = (0, 0), seg_start = ''2024-05-01T09:00:00Z'',
            seg_end = ''2024-05-01T09:01:00Z''\<rparr>]"
    by (simp add: detect_segments_def STAY_RADIUS_M_def STAY_MIN_SEC_def len l1 tail
        centroid_def duration_def iso2dt_may1_def del: One_nat_def)
  moreover have "sorted (map (\<lambda>p. the (iso2dt_may1 (p_ts p))) short_stay_input)"
    by (simp add: short_stay_input_def iso2dt_may1_def)
  moreover have "the (iso2dt_may1 ''2024-05-01T09:01:00Z'') - the (iso2dt_may1 ''2024-05-01T09:00:00Z'')
       < real_of_int STAY_MIN_SEC"
    by (simp add: iso2dt_may1_def STAY_MIN_SEC_def)
  ultimately show ?thesis by simp
qed

section \<open>Properties of the Ingest stage\<close>

lemma put_loop_all_fail:
  "(\<forall>k obj. \<not> s3_put k obj) \<Longrightarrow> put_loop env s3_put device_id rid idx rs saved = saved"
  by (induction rs arbitrary: idx) (simp_all add: Let_def)

text \<open>
  When every put to the object store fails during the ingest of a batch with at least
  one valid location, and the tracker block does not raise (no tracker is configured, or
  every sample time can be formatted), the handler answers 200 with \<open>ok = true\<close>,
  \<open>saved = 0\<close> and \<open>keys = []\<close>: the failed puts are printed and never reach the caller.
\<close>

lemma put_failures_not_surfaced:
  assumes fail: "\<forall>k obj. \<not> s3_put k obj"
    and post: "httpMethod ev \<noteq> Some ''OPTIONS''" "http_method ev \<noteq> Some ''OPTIONS''"
    and batch: "ev_body ev = Decoded (JObj b)" "dict_get b ''locations'' JNull = JArr locs"
    and valid: "batch_records env locs \<noteq> []"
    and tracker: "TRACKER env = None \<or> TRACKER env = Some []
                  \<or> (\<forall>r \<in> set (batch_records env locs). \<exists>t. iso_utc_from_ms env (r_ts_ms r) = Inr t)"
  shows "ingest_handler env s3_put ev =
           Inr \<lparr>statusCode = 200,
                body_json = \<lparr>b_ok = True, b_error = None, b_saved = Some 0, b_keys = Some []\<rparr>\<rparr>"
proof -
  have u: "(\<forall>r \<in> set rs. \<exists>t. iso_utc_from_ms env (r_ts_ms r) = Inr t) \<Longrightarrow>
           \<exists>us. tracker_updates env dev rs = Inr us" for rs dev
    by (induction rs) auto
  have "\<exists>us. tracker_block env dev (batch_records env locs) = Inr us" for dev
    using tracker u [of "batch_records env locs" dev]
    by (auto simp: tracker_block_def split: option.splits)
  then have tb: "(case tracker_block env dev (batch_records env locs) of
                    Inl e \<Rightarrow> Inl e | Inr updates \<Rightarrow> X) = X" for dev and X :: "error + response"
    by (metis sum.case(2))
  show ?thesis
    using post batch valid
    by (simp add: ingest_handler_def http_resp_def Let_def put_loop_all_fail [OF fail] tb)
qed

lemma handler_batch:
  assumes post: "httpMethod ev \<noteq> Some ''OPTIONS''" "http_method ev \<noteq> Some ''OPTIONS''"
    and batch: "ev_body ev = Decoded (JObj b)" "dict_get b ''locations'' JNull = JArr locs"
    and dev: "dict_get b ''deviceId'' JNull = JStr dev" "dev \<noteq> []"
    and recs: "batch_records env locs = recs" "recs \<noteq> []"
    and fail: "\<forall>k obj. \<not> s3_put k obj"
  shows "ingest_handler env s3_put ev =
           (case tracker_block env dev recs of
              Inl e \<Rightarrow> Inl e
            | Inr updates \<Rightarrow>
                Inr \<lparr>statusCode = 200,
                     body_json = \<lparr>b_ok = True, b_error = None, b_saved = Some 0,
                                  b_keys = Some []\<rparr>\<rparr>)"
  using post batch dev recs
  by (simp add: ingest_handler_def http_resp_def Let_def put_loop_all_fail [OF fail]
           split: sum.splits)

text \<open>
  C9. With a tracker configured, a valid batch of one location whose timestamp is in
  microseconds makes the handler raise ValueError while it formats the sample time for
  the tracker, before any put: the caller gets no HTTP 200, whatever the store would
  have done. The same event without a tracker, and the same instant in milliseconds
  with the tracker, are answered 200 with \<open>saved = 0\<close> and \<open>keys = []\<close> when every put
  fails.
\<close>

theorem C9_tracker_sample_time_raises:
  "ingest_handler env_tracker (\<lambda>k obj. False) micros_event = Inl ValueError
   \<and> ingest_handler (env_tracker \<lparr>TRACKER := None\<rparr>) (\<lambda>k obj. False) micros_event =
       Inr \<lparr>statusCode = 200,
            body_json = \<lparr>b_ok = True, b_error = None, b_saved = Some 0, b_keys = Some []\<rparr>\<rparr>
   \<and> ingest_handler env_tracker (\<lambda>k obj. False) batch_event =
       Inr \<lparr>statusCode = 200,
            body_json = \<lparr>b_ok = True, b_error = None, b_saved = Some 0, b_keys = Some []\<rparr>\<rparr>"
proof -
  let ?b1 = "[(''deviceId'', JStr ''d1''),
              (''locations'', JArr [JObj [(''latitude'', JNum 35.68), (''longitude'', JNum 139.76),
                                          (''timestamp'', JNum 1714557600000000)]])]"
  let ?b2 = "[(''deviceId'', JStr ''d1''),
              (''locations'', JArr [JObj [(''latitude'', JNum 35.68), (''longitude'', JNum 139.76),
                                          (''timestamp'', JNum 1714557600000)]])]"
  let ?r1 = "\<lparr>r_lat = 35.68, r_lon = 139.76, r_ts_ms = 1714557600000000\<rparr>"
  let ?r2 = "\<lparr>r_lat = 35.68, r_lon = 139.76, r_ts_ms = 1714557600000\<rparr>"
  have l1: "dict_get ?b1 ''locations'' JNull
              = JArr [JObj [(''latitude'', JNum 35.68), (''longitude'', JNum 139.76),
                            (''timestamp'', JNum 1714557600000000)]]"
    and l2: "dict_get ?b2 ''locations'' JNull
              = JArr [JObj [(''latitude'', JNum 35.68), (''longitude'', JNum 139.76),
                            (''timestamp'', JNum 1714557600000)]]"
    and d1: "dict_get ?b1 ''deviceId'' JNull = JStr ''d1''"
    and d2: "dict_get ?b2 ''deviceId'' JNull = JStr ''d1''"
    by (simp_all add: dict_get_def)
  have r1: "batch_records env [JObj [(''latitude'', JNum 35.68), (''longitude'', JNum 139.76),
                                     (''timestamp'', JNum 1714557600000000)]] = ?r1 # []" for env
    by (simp add: batch_record_def coords_record_def dict_get_def to_ms_def py_int_def)
  have r2: "batch_records env [JObj [(''latitude'', JNum 35.68), (''longitude'', JNum 139.76),
                                     (''timestamp'', JNum 1714557600000)]] = ?r2 # []" for env
    by (simp add: batch_record_def coords_record_def dict_get_def to_ms_def py_int_def)
  have t1: "tracker_block env_tracker ''d1'' [?r1] = Inl ValueError"
    by (simp add: tracker_block_def iso_utc_from_ms_def env_tracker_def env0_def)
  have t2: "tracker_block (env_tracker \<lparr>TRACKER := None\<rparr>) ''d1'' [?r1] = Inr []"
    by (simp add: tracker_block_def)
  have t3: "tracker_block env_tracker ''d1'' [?r2]
        = Inr [\<lparr>u_DeviceId = ''d1'', u_Position = (139.76, 35.68),
                 u_SampleTime = ''2024-05-01T10:00:00Z''\<rparr>]"
    by (simp add: tracker_block_def iso_utc_from_ms_def env_tracker_def env0_def)
  have a: "ingest_handler env_tracker (\<lambda>k obj. False) micros_event = Inl ValueError"
    using handler_batch [of micros_event ?b1 _ "''d1''" env_tracker "[?r1]" "\<lambda>k obj. False",
                         OF _ _ _ l1 d1 _ r1]
    unfolding t1 by (simp add: micros_event_def)
  have b: "ingest_handler (env_tracker \<lparr>TRACKER := None\<rparr>) (\<lambda>k obj. False) micros_event =
       Inr \<lparr>statusCode = 200,
            body_json = \<lparr>b_ok = True, b_error = None, b_saved = Some 0, b_keys = Some []\<rparr>\<rparr>"
    using handler_batch [of micros_event ?b1 _ "''d1''" "env_tracker \<lparr>TRACKER := None\<rparr>" "[?r1]"
                            "\<lambda>k obj. False", OF _ _ _ l1 d1 _ r1]
    unfolding t2 by (simp add: micros_event_def)
  have c: "ingest_handler env_tracker (\<lambda>k obj. False) batch_event =
       Inr \<lparr>statusCode = 200,
            body_json = \<lparr>b_ok = True, b_error = None, b_saved = Some 0, b_keys = Some []\<rparr>\<rparr>"
    using handler_batch [of batch_event ?b2 _ "''d1''" env_tracker "[?r2]" "\<lambda>k obj. False",
                         OF _ _ _ l2 d2 _ r2]
    unfolding t3 by (simp add: batch_event_def)
  from a b c show ?thesis by simp
qed

section \<open>Properties of the Merge stage\<close>

lemmas merge_eval =
  write_merged_jsonl_def merge_points_def load_existing_jsonl_def List.map_filter_simps load_line_def
  load_json_def load_dumped_def norm_def ts_or_iso_def iso_def dict_get_def rec_key_def key_in_def
  nan_free_def sort_by_ts_def pt_def rc_def of_point_def lib0_def now_1_def now_2_def Let_def


lemma keyed_append: "keyed now (xs @ ys) = keyed now xs @ keyed now ys"
  by (simp add: keyed_def)
















text \<open>
  C1. A record whose latitude is NaN is merged into an empty points.jsonl and then, from
  the same raw object, merged again. The second merge loads the line of the first, and
  the new record has the same ts and the same coordinates; but its key holds a NaN, a
  key with a NaN is never found in the set of keys seen, and the record is appended
  again: the file has one line after the first merge and the same line twice after the
  second. The two merges read the clock at different times; the clock plays no part.
\<close>

theorem C1_nan_replay_appends:
  "write_merged_jsonl lib0 now_1 [] [rec_nan] = Inr [Dumped rec_nan]
   \<and> write_merged_jsonl lib0 now_2 [Dumped rec_nan] [rec_nan] = Inr [Dumped rec_nan, Dumped rec_nan]"
  by (simp add: merge_eval rec_nan_def)

text \<open>
  C5 (as amended). In Ingest a record whose timestamp is absent (null) or a string that
  the parser rejects is kept, and its timestamp is the current clock in milliseconds.
  In Merge, \<open>normalize_payload\<close> drops a record whose timestamp is absent (null), and
  keeps a record whose timestamp is a string that the parser rejects, with the string
  itself as its ts.
\<close>

theorem C5_timestamp_fallbacks:
  assumes "py_float (float_of_str env) lat_v = Inr la" and "py_float (float_of_str env) lon_v = Inr lo"
    and "py_float (float_str L) lat_v = Inr la" and "py_float (float_str L) lon_v = Inr lo"
    and "fromisoformat_ts env (if s \<noteq> [] \<and> last s = CHR ''Z'' then butlast s @ ''+00:00'' else s) = None"
    and "fromisoformat_iso L s = None"
  shows "coords_record env lat_v lon_v JNull
           = Inr \<lparr>r_lat = la, r_lon = lo, r_ts_ms = py_int (clock env * 1000)\<rparr>
       \<and> coords_record env lat_v lon_v (JStr s)
           = Inr \<lparr>r_lat = la, r_lon = lo, r_ts_ms = py_int (clock env * 1000)\<rparr>
       \<and> make_point L now dev lat_v lon_v JNull = Inr None
       \<and> make_point L now dev lat_v lon_v (JStr s)
           = Inr (Some (to_dict \<lparr>pt_deviceId = dev, pt_lat = la, pt_lon = lo, pt_ts = JStr s\<rparr>))"
proof -
  have nn: "lat_v \<noteq> JNull" "lon_v \<noteq> JNull" using assms(1,2) by auto
  show ?thesis
    using assms nn by (simp add: coords_record_def to_ms_def make_point_def iso_def Let_def)
qed

theorem C5_timestamp_fallbacks_witness:
  "coords_record env0 (JNum 35.68) (JNum 139.76) JNull
           = Inr \<lparr>r_lat = 35.68, r_lon = 139.76, r_ts_ms = 1714557600500\<rparr>
   \<and> coords_record env0 (JNum 35.68) (JNum 139.76) (JStr ''yesterday'')
           = Inr \<lparr>r_lat = 35.68, r_lon = 139.76, r_ts_ms = 1714557600500\<rparr>
   \<and> make_point lib0 now_1 (JStr ''d1'') (JNum 35.68) (JNum 139.76) JNull = Inr None
   \<and> make_point lib0 now_1 (JStr ''d1'') (JNum 35.68) (JNum 139.76) (JStr ''yesterday'')
           = Inr (Some (to_dict \<lparr>pt_deviceId = JStr ''d1'', pt_lat = 35.68, pt_lon = 139.76,
                                  pt_ts = JStr ''yesterday''\<rparr>))"
proof -
  have c: "py_int (clock env0 * 1000) = 1714557600500" by (simp add: env0_def py_int_def)
  have a: "fromisoformat_ts env0 (if ''yesterday'' \<noteq> [] \<and> last ''yesterday'' = CHR ''Z''
              then butlast ''yesterday'' @ ''+00:00'' else ''yesterday'') = None"
    by (simp add: env0_def)
  have b: "fromisoformat_iso lib0 ''yesterday'' = None" by (simp add: lib0_def)
  show ?thesis
    using C5_timestamp_fallbacks [where env = env0 and lat_v = "JNum 35.68" and la = "35.68" and lon_v = "JNum 139.76"
          and lo = "139.76" and L = lib0 and s = "''yesterday''" and now = now_1
          and dev = "JStr ''d1''", OF _ _ _ _ a b] c
    by simp
qed

text \<open>
  The claim as stated fails in Ingest: a location without a timestamp is not dropped,
  it becomes a record stamped with the clock.
\<close>

theorem C5_default_counterexample:
  "batch_records env0 [JObj [(''latitude'', JNum 35.68), (''longitude'', JNum 139.76)]]
     = [\<lparr>r_lat = 35.68, r_lon = 139.76, r_ts_ms = 1714557600500\<rparr>]
   \<and> py_int (clock env0 * 1000) = 1714557600500"
  by (simp add: batch_record_def coords_record_def dict_get_def to_ms_def env0_def py_int_def)

end
